theory Spec2Isabelle
  imports Main "HOL-Library.AList"
begin

section \<open>JavaScript values\<close>

text \<open>
  The library passes untyped values around: option bags (\<open>opts: any\<close>), the values the
  transport decodes, and live streams. They are modelled as trees. An object is
  its list of own named properties in insertion order; an array carries its elements and
  its own named properties; a stream carries the chunks it will deliver to a \<open>data\<close>
  listener, whether it then emits \<open>end\<close>, and its own named properties. Numbers are the
  integers that a double holds exactly and prints in decimal notation; functions are not
  values of the model.
\<close>

datatype jsval =
    JUndefined
  | JNull
  | JBool bool
  | JNum int
  | JStr string
  | JObj "(string \<times> jsval) list"
  | JArr "jsval list" "(string \<times> jsval) list"
  | JStream "string list" bool "(string \<times> jsval) list"

datatype error = TypeError

text \<open>Truthiness, as tested by \<open>if (err)\<close>, \<open>!opts.stream\<close> and \<open>!!opts.stream\<close>.\<close>

fun truthy :: "jsval \<Rightarrow> bool" where
  "truthy JUndefined = False"
| "truthy JNull = False"
| "truthy (JBool b) = b"
| "truthy (JNum n) = (n \<noteq> 0)"
| "truthy (JStr s) = (s \<noteq> [])"
| "truthy (JObj ps) = True"
| "truthy (JArr xs ps) = True"
| "truthy (JStream cs e ps) = True"

text \<open>A parameter default \<open>opts = {}\<close> applies exactly when the argument is \<open>undefined\<close>.\<close>

definition defaultTo :: "jsval \<Rightarrow> jsval \<Rightarrow> jsval" where
  "defaultTo v d = (if v = JUndefined then d else v)"

definition lookup :: "(string \<times> jsval) list \<Rightarrow> string \<Rightarrow> jsval" where
  "lookup ps k = (case map_of ps k of None \<Rightarrow> JUndefined | Some v \<Rightarrow> v)"

text \<open>
  Reading a property \<open>v.k\<close>, for the names this source reads (\<open>Id\<close>, \<open>stream\<close>, \<open>path\<close>,
  \<open>stdin\<close>, \<open>hijack\<close>), none of which is inherited from a built-in prototype: it throws on
  \<open>undefined\<close> and \<open>null\<close> and gives \<open>undefined\<close> on the other primitives.
\<close>

fun getProp :: "jsval \<Rightarrow> string \<Rightarrow> error + jsval" where
  "getProp JUndefined k = Inl TypeError"
| "getProp JNull k = Inl TypeError"
| "getProp (JBool b) k = Inr JUndefined"
| "getProp (JNum n) k = Inr JUndefined"
| "getProp (JStr s) k = Inr JUndefined"
| "getProp (JObj ps) k = Inr (lookup ps k)"
| "getProp (JArr xs ps) k = Inr (lookup ps k)"
| "getProp (JStream cs e ps) k = Inr (lookup ps k)"

text \<open>
  Writing a property \<open>v.k = x\<close>. The file is in strict mode, so the write throws on every
  primitive; on an object it overwrites the property in place or appends it.
\<close>

fun setProp :: "jsval \<Rightarrow> string \<Rightarrow> jsval \<Rightarrow> error + jsval" where
  "setProp (JObj ps) k x = Inr (JObj (AList.update k x ps))"
| "setProp (JArr xs ps) k x = Inr (JArr xs (AList.update k x ps))"
| "setProp (JStream cs e ps) k x = Inr (JStream cs e (AList.update k x ps))"
| "setProp JUndefined k x = Inl TypeError"
| "setProp JNull k x = Inl TypeError"
| "setProp (JBool b) k x = Inl TypeError"
| "setProp (JNum n) k x = Inl TypeError"
| "setProp (JStr s) k x = Inl TypeError"

text \<open>String conversion, as a template literal \<open>`${v}`\<close> performs it.\<close>

fun digits :: "nat \<Rightarrow> string" where
  "digits n =
     (if n < 10 then [char_of (48 + n)]
      else digits (n div 10) @ [char_of (48 + n mod 10)])"

definition showInt :: "int \<Rightarrow> string" where
  "showInt i = (if i < 0 then CHR ''-'' # digits (nat (- i)) else digits (nat i))"

fun join :: "string \<Rightarrow> string list \<Rightarrow> string" where
  "join sep [] = []"
| "join sep [s] = s"
| "join sep (s # t # ts) = s @ sep @ join sep (t # ts)"

fun toString :: "jsval \<Rightarrow> string" where
  "toString JUndefined = ''undefined''"
| "toString JNull = ''null''"
| "toString (JBool b) = (if b then ''true'' else ''false'')"
| "toString (JNum n) = showInt n"
| "toString (JStr s) = s"
| "toString (JObj ps) = ''[object Object]''"
| "toString (JArr xs ps) =
     join '','' (map (\<lambda>x. if x = JUndefined \<or> x = JNull then [] else toString x) xs)"
| "toString (JStream cs e ps) = ''[object Object]''"

text \<open>
  \<open>s.replace(pat, rep)\<close> with a string pattern: the first occurrence of \<open>pat\<close> is replaced
  (\<open>rep\<close> taken literally, as it is for the empty replacement the source passes).
\<close>

definition startsWith :: "string \<Rightarrow> string \<Rightarrow> bool" where
  "startsWith s pat = (take (length pat) s = pat)"

fun replace :: "string \<Rightarrow> string \<Rightarrow> string \<Rightarrow> string" where
  "replace [] pat rep = (if pat = [] then rep else [])"
| "replace (c # cs) pat rep =
     (if startsWith (c # cs) pat then rep @ drop (length pat) (c # cs)
      else c # replace cs pat rep)"

section \<open>Call descriptors and the transport\<close>

datatype http_method = GET | POST | PUT | DELETE | HEAD

text \<open>An entry of a status-code table: \<open>true\<close>, or the reason of the error.\<close>

datatype status = Accept | Reason string

text \<open>
  The object literal \<open>call\<close> every method builds. A field the literal does not mention is
  \<open>None\<close>.
\<close>

record call =
  path :: string
  method' :: http_method
  options :: jsval
  isStream :: "bool option"
  hijack :: "jsval option"
  openStdin :: "jsval option"
  file' :: "jsval option"
  statusCodes :: "(int \<times> status) list"

text \<open>
  The transport (docker-modem) is an external collaborator. \<open>T m n c\<close> is the pair
  \<open>(err, data)\<close> with which the modem \<open>m\<close> calls the callback of its \<open>n\<close>-th dial, made
  with descriptor \<open>c\<close>.
\<close>

type_synonym transport = "nat \<Rightarrow> nat \<Rightarrow> call \<Rightarrow> jsval \<times> jsval"

section \<open>Handles and the store\<close>

text \<open>
  Modelled from the spec: the class \<open>Image\<close> of \<open>./image\<close>, which \<open>Container.commit\<close>
  constructs and whose file is missing; a resource handle that wraps the transport and an
  identifier.
\<close>

record Image =
  modem :: nat
  id' :: jsval

record Exec =
  modem :: nat
  container :: nat
  id' :: jsval
  data :: jsval

record ExecManager =
  modem :: nat
  container :: nat

record ContainerFs =
  modem :: nat
  container :: nat

record Container =
  modem :: nat
  id' :: jsval
  fs :: ContainerFs
  exec :: ExecManager
  Warnings :: jsval
  data :: jsval

text \<open>The class exported as \<open>default\<close>: the container manager.\<close>

record Default =
  modem :: nat

text \<open>
  Handles are objects with identity: they live in a store, one list per class, and a
  reference to a handle is its index. \<open>dialed\<close> logs every dial: the modem and the
  descriptor.
\<close>

record world =
  containers :: "Container list"
  execs :: "Exec list"
  images :: "Image list"
  dialed :: "(nat \<times> call) list"

text \<open>What a promise is resolved with.\<close>

datatype result =
    RVal jsval
  | RContainer nat
  | RExec nat
  | RImage nat
  | RArray "result list"

text \<open>
  The outcome of a call of a method: its promise resolved or rejected, its promise left
  unsettled, or a \<open>TypeError\<close> raised by the method or by its callback (by which the
  promise is not settled either).
\<close>

datatype outcome = Resolved result | Rejected jsval | Pending | Threw error

definition dial :: "transport \<Rightarrow> nat \<Rightarrow> call \<Rightarrow> world \<Rightarrow> (jsval \<times> jsval) \<times> world" where
  "dial T m c w = (T m (length (dialed w)) c, w\<lparr>dialed := dialed w @ [(m, c)]\<rparr>)"

text \<open>The constructors.\<close>

definition new_Image :: "nat \<Rightarrow> jsval \<Rightarrow> world \<Rightarrow> nat \<times> world" where
  "new_Image m i w =
     (length (images w),
      w\<lparr>images := images w @ [\<lparr>Image.modem = m, Image.id' = i\<rparr>]\<rparr>)"

definition new_Exec :: "nat \<Rightarrow> nat \<Rightarrow> jsval \<Rightarrow> world \<Rightarrow> nat \<times> world" where
  "new_Exec m c i w =
     (length (execs w),
      w\<lparr>execs := execs w @
        [\<lparr>Exec.modem = m, Exec.container = c, Exec.id' = i, Exec.data = JObj []\<rparr>]\<rparr>)"

definition new_Container :: "nat \<Rightarrow> jsval \<Rightarrow> world \<Rightarrow> nat \<times> world" where
  "new_Container m i w =
     (let a = length (containers w) in
      (a, w\<lparr>containers := containers w @
        [\<lparr>Container.modem = m, Container.id' = i,
          fs = \<lparr>ContainerFs.modem = m, ContainerFs.container = a\<rparr>,
          exec = \<lparr>ExecManager.modem = m, ExecManager.container = a\<rparr>,
          Warnings = JArr [] [], Container.data = JUndefined\<rparr>]\<rparr>))"

text \<open>The assignments \<open>exec.data = conf\<close>, \<open>container.data = conf\<close>, \<open>container.Warnings = warnings\<close>.\<close>

definition set_Exec_data :: "nat \<Rightarrow> jsval \<Rightarrow> world \<Rightarrow> world" where
  "set_Exec_data a v w = w\<lparr>execs := (execs w)[a := (execs w ! a)\<lparr>Exec.data := v\<rparr>]\<rparr>"

definition set_Container_data :: "nat \<Rightarrow> jsval \<Rightarrow> world \<Rightarrow> world" where
  "set_Container_data a v w =
     w\<lparr>containers := (containers w)[a := (containers w ! a)\<lparr>Container.data := v\<rparr>]\<rparr>"

definition set_Container_Warnings :: "nat \<Rightarrow> jsval \<Rightarrow> world \<Rightarrow> world" where
  "set_Container_Warnings a v w =
     w\<lparr>containers := (containers w)[a := (containers w ! a)\<lparr>Warnings := v\<rparr>]\<rparr>"

section \<open>Objects shared with the store\<close>

text \<open>
  A decoded object is stored in a handle as it is (\<open>container.data = conf\<close>), and a caller
  may pass that object, or an object inside it, to a method. The source writes to one
  object that it has not constructed: \<open>opts.container = this.id\<close> in \<open>commit\<close>. The write is
  in place, so it shows wherever the object sits. A place is a field of a handle that holds
  a value, with the path from that value down to the object; \<open>commit\<close> is told the places
  of its argument.
\<close>

datatype step = Prop string | Elem nat

datatype holder = ContainerData nat | ContainerWarnings nat | ExecData nat

type_synonym place = "holder \<times> step list"

definition properties :: "jsval \<Rightarrow> (string \<times> jsval) list option" where
  "properties v =
     (case v of
        JObj ps \<Rightarrow> Some ps
      | JArr xs ps \<Rightarrow> Some ps
      | JStream cs e ps \<Rightarrow> Some ps
      | _ \<Rightarrow> None)"

text \<open>The value at the end of a path, when the path exists.\<close>

fun at :: "step list \<Rightarrow> jsval \<Rightarrow> jsval option" where
  "at [] v = Some v"
| "at (Prop k # p) v =
     (case properties v of
        None \<Rightarrow> None
      | Some ps \<Rightarrow> (case map_of ps k of None \<Rightarrow> None | Some x \<Rightarrow> at p x))"
| "at (Elem i # p) v =
     (case v of
        JArr xs ps \<Rightarrow> if i < length xs then at p (xs ! i) else None
      | _ \<Rightarrow> None)"

text \<open>The value with the object at the end of a path replaced.\<close>

fun replace_at :: "step list \<Rightarrow> jsval \<Rightarrow> jsval \<Rightarrow> jsval" where
  "replace_at [] new v = new"
| "replace_at (Prop k # p) new v =
     (case v of
        JObj ps \<Rightarrow>
          (case map_of ps k of
             None \<Rightarrow> v
           | Some x \<Rightarrow> JObj (AList.update k (replace_at p new x) ps))
      | JArr xs ps \<Rightarrow>
          (case map_of ps k of
             None \<Rightarrow> v
           | Some x \<Rightarrow> JArr xs (AList.update k (replace_at p new x) ps))
      | JStream cs e ps \<Rightarrow>
          (case map_of ps k of
             None \<Rightarrow> v
           | Some x \<Rightarrow> JStream cs e (AList.update k (replace_at p new x) ps))
      | _ \<Rightarrow> v)"
| "replace_at (Elem i # p) new v =
     (case v of
        JArr xs ps \<Rightarrow>
          if i < length xs then JArr (xs[i := replace_at p new (xs ! i)]) ps else v
      | _ \<Rightarrow> v)"

definition held :: "holder \<Rightarrow> world \<Rightarrow> jsval option" where
  "held h w =
     (case h of
        ContainerData a \<Rightarrow>
          if a < length (containers w) then Some (Container.data (containers w ! a)) else None
      | ContainerWarnings a \<Rightarrow>
          if a < length (containers w) then Some (Warnings (containers w ! a)) else None
      | ExecData a \<Rightarrow>
          if a < length (execs w) then Some (Exec.data (execs w ! a)) else None)"

definition set_held :: "holder \<Rightarrow> jsval \<Rightarrow> world \<Rightarrow> world" where
  "set_held h v w =
     (case h of
        ContainerData a \<Rightarrow> set_Container_data a v w
      | ContainerWarnings a \<Rightarrow> set_Container_Warnings a v w
      | ExecData a \<Rightarrow> set_Exec_data a v w)"

text \<open>
  The object \<open>old\<close> has become \<open>new\<close>: a place that holds \<open>old\<close> now holds \<open>new\<close>, a place that
  does not hold it is left alone.
\<close>

definition write_place :: "place \<Rightarrow> jsval \<Rightarrow> jsval \<Rightarrow> world \<Rightarrow> world" where
  "write_place pl old new w =
     (case held (fst pl) w of
        None \<Rightarrow> w
      | Some v \<Rightarrow>
          if at (snd pl) v = Some old then set_held (fst pl) (replace_at (snd pl) new v) w
          else w)"

fun write_shared :: "place list \<Rightarrow> jsval \<Rightarrow> jsval \<Rightarrow> world \<Rightarrow> world" where
  "write_shared [] old new w = w"
| "write_shared (pl # pls) old new w = write_shared pls old new (write_place pl old new w)"

section \<open>Exec\<close>

text \<open>
  The callback shared by \<open>Exec.create\<close>, \<open>Exec.status\<close> and \<open>ExecManager.create\<close>:
  \<open>new Exec(this.modem, this.container, conf.Id)\<close>, then \<open>exec.data = conf\<close>.
\<close>

definition exec_of_conf :: "nat \<Rightarrow> nat \<Rightarrow> jsval \<Rightarrow> world \<Rightarrow> outcome \<times> world" where
  "exec_of_conf m c conf w =
     (case getProp conf ''Id'' of
        Inl e \<Rightarrow> (Threw e, w)
      | Inr i \<Rightarrow>
          (let (a, w1) = new_Exec m c i w;
               w2 = set_Exec_data a conf w1
           in (Resolved (RExec a), w2)))"

definition Exec_create_call :: "Container \<Rightarrow> jsval \<Rightarrow> call" where
  "Exec_create_call owner opts =
     \<lparr>path = ''/containers/'' @ toString (Container.id' owner) @ ''/exec?'',
      method' = POST, options = opts, isStream = None, hijack = None, openStdin = None,
      file' = None,
      statusCodes = [(200, Accept), (201, Accept), (404, Reason ''no such container''),
                     (409, Reason ''container is paused''), (500, Reason ''server error'')]\<rparr>"

definition Exec_create :: "transport \<Rightarrow> nat \<Rightarrow> jsval \<Rightarrow> world \<Rightarrow> outcome \<times> world" where
  "Exec_create T this opts w =
     (let self = execs w ! this;
          c = Exec_create_call (containers w ! Exec.container self) opts;
          ((err, conf), w1) = dial T (Exec.modem self) c w
      in if truthy err then (Rejected err, w1)
         else exec_of_conf (Exec.modem self) (Exec.container self) conf w1)"

definition Exec_start_call :: "Exec \<Rightarrow> jsval \<Rightarrow> error + call" where
  "Exec_start_call self opts0 =
     (let opts = defaultTo opts0 (JObj []) in
      case getProp opts ''hijack'' of
        Inl e \<Rightarrow> Inl e
      | Inr h \<Rightarrow>
          (case getProp opts ''stdin'' of
             Inl e \<Rightarrow> Inl e
           | Inr s \<Rightarrow>
               Inr \<lparr>path = ''/exec/'' @ toString (Exec.id' self) @ ''/start?'',
                    method' = POST, options = opts, isStream = Some True, hijack = Some h,
                    openStdin = Some s, file' = None,
                    statusCodes = [(200, Accept), (404, Reason ''no such exec instance''),
                                   (409, Reason ''container is paused'')]\<rparr>))"

definition Exec_start :: "transport \<Rightarrow> nat \<Rightarrow> jsval \<Rightarrow> world \<Rightarrow> outcome \<times> world" where
  "Exec_start T this opts w =
     (let self = execs w ! this in
      case Exec_start_call self opts of
        Inl e \<Rightarrow> (Threw e, w)
      | Inr c \<Rightarrow>
          (let ((err, stream), w1) = dial T (Exec.modem self) c w
           in if truthy err then (Rejected err, w1)
              else (Resolved (RVal stream), w1)))"

definition Exec_resize_call :: "Exec \<Rightarrow> jsval \<Rightarrow> call" where
  "Exec_resize_call self opts =
     \<lparr>path = ''/exec/'' @ toString (Exec.id' self) @ ''/resize?'',
      method' = POST, options = opts, isStream = None, hijack = None, openStdin = None,
      file' = None,
      statusCodes = [(201, Accept), (404, Reason ''no such exec instance'')]\<rparr>"

definition Exec_resize :: "transport \<Rightarrow> nat \<Rightarrow> jsval \<Rightarrow> world \<Rightarrow> outcome \<times> world" where
  "Exec_resize T this opts w =
     (let self = execs w ! this;
          ((err, res), w1) = dial T (Exec.modem self) (Exec_resize_call self opts) w
      in if truthy err then (Rejected err, w1)
         else (Resolved (RVal JNull), w1))"

definition Exec_status_call :: "Exec \<Rightarrow> jsval \<Rightarrow> call" where
  "Exec_status_call self opts =
     \<lparr>path = ''/exec/'' @ toString (Exec.id' self) @ ''/json?'',
      method' = GET, options = opts, isStream = None, hijack = None, openStdin = None,
      file' = None,
      statusCodes = [(200, Accept), (404, Reason ''no such exec instance''),
                     (500, Reason ''server error'')]\<rparr>"

definition Exec_status :: "transport \<Rightarrow> nat \<Rightarrow> jsval \<Rightarrow> world \<Rightarrow> outcome \<times> world" where
  "Exec_status T this opts w =
     (let self = execs w ! this;
          ((err, conf), w1) = dial T (Exec.modem self) (Exec_status_call self opts) w
      in if truthy err then (Rejected err, w1)
         else exec_of_conf (Exec.modem self) (Exec.container self) conf w1)"

section \<open>ExecManager\<close>

definition ExecManager_get :: "ExecManager \<Rightarrow> string \<Rightarrow> world \<Rightarrow> nat \<times> world" where
  "ExecManager_get this i w =
     new_Exec (ExecManager.modem this) (ExecManager.container this) (JStr i) w"

definition ExecManager_create_call :: "Container \<Rightarrow> jsval \<Rightarrow> call" where
  "ExecManager_create_call owner opts =
     \<lparr>path = ''/containers/'' @ toString (Container.id' owner) @ ''/exec?'',
      method' = POST, options = opts, isStream = None, hijack = None, openStdin = None,
      file' = None,
      statusCodes = [(200, Accept), (201, Accept), (404, Reason ''no such container''),
                     (409, Reason ''container is paused''), (500, Reason ''server error'')]\<rparr>"

definition ExecManager_create ::
  "transport \<Rightarrow> ExecManager \<Rightarrow> jsval \<Rightarrow> world \<Rightarrow> outcome \<times> world" where
  "ExecManager_create T this opts w =
     (let c = ExecManager_create_call (containers w ! ExecManager.container this) opts;
          ((err, conf), w1) = dial T (ExecManager.modem this) c w
      in if truthy err then (Rejected err, w1)
         else exec_of_conf (ExecManager.modem this) (ExecManager.container this) conf w1)"

section \<open>ContainerFs\<close>

definition ContainerFs_info_call :: "Container \<Rightarrow> jsval \<Rightarrow> call" where
  "ContainerFs_info_call owner opts =
     \<lparr>path = ''/containers/'' @ toString (Container.id' owner) @ ''/archive?'',
      method' = HEAD, options = opts, isStream = Some True, hijack = None, openStdin = None,
      file' = None,
      statusCodes = [(200, Accept), (404, Reason ''bad request''),
                     (500, Reason ''server error'')]\<rparr>"

definition ContainerFs_info ::
  "transport \<Rightarrow> ContainerFs \<Rightarrow> jsval \<Rightarrow> world \<Rightarrow> outcome \<times> world" where
  "ContainerFs_info T this opts w =
     (let c = ContainerFs_info_call (containers w ! ContainerFs.container this) opts;
          ((err, info), w1) = dial T (ContainerFs.modem this) c w
      in if truthy err then (Rejected err, w1)
         else (Resolved (RVal info), w1))"

definition ContainerFs_get_call :: "Container \<Rightarrow> jsval \<Rightarrow> error + call" where
  "ContainerFs_get_call owner opts0 =
     (let opts = defaultTo opts0 (JObj []) in
      case getProp opts ''path'' of
        Inl e \<Rightarrow> Inl e
      | Inr p \<Rightarrow>
          Inr \<lparr>path = ''/containers/'' @ toString (Container.id' owner) @
                       ''/archive?path='' @ toString p @ ''&'',
               method' = GET, options = opts, isStream = Some True, hijack = None,
               openStdin = None, file' = None,
               statusCodes = [(200, Accept), (400, Reason ''bad request''),
                              (404, Reason ''no such container''),
                              (500, Reason ''server error'')]\<rparr>)"

definition ContainerFs_get ::
  "transport \<Rightarrow> ContainerFs \<Rightarrow> jsval \<Rightarrow> world \<Rightarrow> outcome \<times> world" where
  "ContainerFs_get T this opts w =
     (case ContainerFs_get_call (containers w ! ContainerFs.container this) opts of
        Inl e \<Rightarrow> (Threw e, w)
      | Inr c \<Rightarrow>
          (let ((err, stream), w1) = dial T (ContainerFs.modem this) c w
           in if truthy err then (Rejected err, w1)
              else (Resolved (RVal stream), w1)))"

definition ContainerFs_put_call :: "Container \<Rightarrow> jsval \<Rightarrow> jsval \<Rightarrow> call" where
  "ContainerFs_put_call owner file opts =
     \<lparr>path = ''/containers/'' @ toString (Container.id' owner) @ ''/archive?'',
      method' = PUT, options = opts, isStream = Some True, hijack = None, openStdin = None,
      file' = Some file,
      statusCodes = [(200, Accept), (400, Reason ''bad request''),
                     (403, Reason ''permission denied''),
                     (404, Reason ''no such container''),
                     (500, Reason ''server error'')]\<rparr>"

definition ContainerFs_put ::
  "transport \<Rightarrow> ContainerFs \<Rightarrow> jsval \<Rightarrow> jsval \<Rightarrow> world \<Rightarrow> outcome \<times> world" where
  "ContainerFs_put T this file opts w =
     (let c = ContainerFs_put_call (containers w ! ContainerFs.container this) file opts;
          ((err, res), w1) = dial T (ContainerFs.modem this) c w
      in if truthy err then (Rejected err, w1)
         else (Resolved (RVal res), w1))"

section \<open>Container\<close>

definition Container_status_call :: "Container \<Rightarrow> jsval \<Rightarrow> call" where
  "Container_status_call self opts =
     \<lparr>path = ''/containers/'' @ toString (Container.id' self) @ ''/json?'',
      method' = GET, options = opts, isStream = None, hijack = None,
      openStdin = None, file' = None,
      statusCodes = [(200, Accept),
                     (404, Reason ''no such container''),
                     (500, Reason ''server error'')]\<rparr>"

definition Container_status :: "transport \<Rightarrow> nat \<Rightarrow> jsval \<Rightarrow> world \<Rightarrow> outcome \<times> world" where
  "Container_status T this opts w =
     (let self = containers w ! this;
          ((err, conf), w1) = dial T (Container.modem self) (Container_status_call self opts) w
      in if truthy err then (Rejected err, w1)
         else (let (a, w2) = new_Container (Container.modem self) (Container.id' self) w1;
                   w3 = set_Container_data a conf w2
               in (Resolved (RContainer a), w3)))"

definition Container_top_call :: "Container \<Rightarrow> jsval \<Rightarrow> call" where
  "Container_top_call self opts =
     \<lparr>path = ''/containers/'' @ toString (Container.id' self) @ ''/top?'',
      method' = GET, options = opts, isStream = None, hijack = None,
      openStdin = None, file' = None,
      statusCodes = [(200, Accept),
                     (404, Reason ''no such container''),
                     (500, Reason ''server error'')]\<rparr>"

definition Container_top :: "transport \<Rightarrow> nat \<Rightarrow> jsval \<Rightarrow> world \<Rightarrow> outcome \<times> world" where
  "Container_top T this opts w =
     (let self = containers w ! this;
          ((err, processes), w1) = dial T (Container.modem self) (Container_top_call self opts) w
      in if truthy err then (Rejected err, w1)
         else (Resolved (RVal processes), w1))"

definition Container_logs_call :: "Container \<Rightarrow> jsval \<Rightarrow> call" where
  "Container_logs_call self opts =
     \<lparr>path = ''/containers/'' @ toString (Container.id' self) @ ''/logs?'',
      method' = GET, options = opts, isStream = Some True, hijack = None,
      openStdin = None, file' = None,
      statusCodes = [(101, Accept),
                     (200, Accept),
                     (404, Reason ''no such container''),
                     (500, Reason ''server error'')]\<rparr>"

definition Container_logs :: "transport \<Rightarrow> nat \<Rightarrow> jsval \<Rightarrow> world \<Rightarrow> outcome \<times> world" where
  "Container_logs T this opts w =
     (let self = containers w ! this;
          ((err, logs), w1) = dial T (Container.modem self) (Container_logs_call self opts) w
      in if truthy err then (Rejected err, w1)
         else (Resolved (RVal logs), w1))"

definition Container_changes_call :: "Container \<Rightarrow> call" where
  "Container_changes_call self =
     \<lparr>path = ''/containers/'' @ toString (Container.id' self) @ ''/changes?'',
      method' = GET, options = JObj [], isStream = None, hijack = None,
      openStdin = None, file' = None,
      statusCodes = [(200, Accept),
                     (404, Reason ''no such container''),
                     (500, Reason ''server error'')]\<rparr>"

definition Container_changes :: "transport \<Rightarrow> nat \<Rightarrow> world \<Rightarrow> outcome \<times> world" where
  "Container_changes T this w =
     (let self = containers w ! this;
          ((err, changes), w1) = dial T (Container.modem self) (Container_changes_call self) w
      in if truthy err then (Rejected err, w1)
         else (Resolved (RVal changes), w1))"

text \<open>
  \<open>export\<close>. In the callback, \<open>if (!opts.stream) return resolve(tarStream)\<close>; otherwise a
  \<open>data\<close> and an \<open>end\<close> listener are attached to \<open>tarStream\<close>, and the promise is
  resolved at \<open>end\<close> with the chunks joined. Attaching a listener to a value that is not a
  stream throws.
\<close>

definition Container_export_call :: "Container \<Rightarrow> jsval \<Rightarrow> error + call" where
  "Container_export_call self opts0 =
     (let opts = defaultTo opts0 (JObj []) in
      case getProp opts ''stream'' of
        Inl e \<Rightarrow> Inl e
      | Inr s \<Rightarrow>
          Inr \<lparr>path = ''/containers/'' @ toString (Container.id' self) @ ''/export?'',
               method' = GET, options = opts, isStream = Some (truthy s), hijack = None,
               openStdin = None, file' = None,
               statusCodes = [(200, Accept), (404, Reason ''no such container''),
                              (500, Reason ''server error'')]\<rparr>)"

definition Container_export_callback :: "jsval \<Rightarrow> jsval \<Rightarrow> jsval \<Rightarrow> outcome" where
  "Container_export_callback opts err tarStream =
     (if truthy err then Rejected err
      else case getProp opts ''stream'' of
             Inl e \<Rightarrow> Threw e
           | Inr s \<Rightarrow>
               if \<not> truthy s then Resolved (RVal tarStream)
               else (case tarStream of
                       JStream chunks ended ps \<Rightarrow>
                         if ended then Resolved (RVal (JStr (concat chunks))) else Pending
                     | _ \<Rightarrow> Threw TypeError))"

definition Container_export :: "transport \<Rightarrow> nat \<Rightarrow> jsval \<Rightarrow> world \<Rightarrow> outcome \<times> world" where
  "Container_export T this opts w =
     (let self = containers w ! this in
      case Container_export_call self opts of
        Inl e \<Rightarrow> (Threw e, w)
      | Inr c \<Rightarrow>
          (let ((err, tarStream), w1) = dial T (Container.modem self) c w
           in (Container_export_callback (defaultTo opts (JObj [])) err tarStream, w1)))"

definition Container_stats_call :: "Container \<Rightarrow> jsval \<Rightarrow> call" where
  "Container_stats_call self opts =
     \<lparr>path = ''/containers/'' @ toString (Container.id' self) @ ''/stats?'',
      method' = GET, options = opts, isStream = Some True, hijack = None,
      openStdin = None, file' = None,
      statusCodes = [(200, Accept),
                     (404, Reason ''no such container''),
                     (500, Reason ''server error'')]\<rparr>"

definition Container_stats :: "transport \<Rightarrow> nat \<Rightarrow> jsval \<Rightarrow> world \<Rightarrow> outcome \<times> world" where
  "Container_stats T this opts w =
     (let self = containers w ! this;
          ((err, stats), w1) = dial T (Container.modem self) (Container_stats_call self opts) w
      in if truthy err then (Rejected err, w1)
         else (Resolved (RVal stats), w1))"

definition Container_resize_call :: "Container \<Rightarrow> jsval \<Rightarrow> call" where
  "Container_resize_call self opts =
     \<lparr>path = ''/containers/'' @ toString (Container.id' self) @ ''/resize?'',
      method' = GET, options = opts, isStream = None, hijack = None,
      openStdin = None, file' = None,
      statusCodes = [(200, Accept),
                     (404, Reason ''no such container''),
                     (500, Reason ''server error'')]\<rparr>"

definition Container_resize :: "transport \<Rightarrow> nat \<Rightarrow> jsval \<Rightarrow> world \<Rightarrow> outcome \<times> world" where
  "Container_resize T this opts w =
     (let self = containers w ! this;
          ((err, res), w1) = dial T (Container.modem self) (Container_resize_call self opts) w
      in if truthy err then (Rejected err, w1)
         else (Resolved (RVal res), w1))"

definition Container_start_call :: "Container \<Rightarrow> jsval \<Rightarrow> call" where
  "Container_start_call self opts =
     \<lparr>path = ''/containers/'' @ toString (Container.id' self) @ ''/start?'',
      method' = POST, options = defaultTo opts (JObj []), isStream = None, hijack = None,
      openStdin = None, file' = None,
      statusCodes = [(204, Accept),
                     (304, Accept),
                     (404, Reason ''no such container''),
                     (500, Reason ''server error'')]\<rparr>"

definition Container_start :: "transport \<Rightarrow> nat \<Rightarrow> jsval \<Rightarrow> world \<Rightarrow> outcome \<times> world" where
  "Container_start T this opts w =
     (let self = containers w ! this;
          ((err, res), w1) = dial T (Container.modem self) (Container_start_call self opts) w
      in if truthy err then (Rejected err, w1)
         else (Resolved (RContainer this), w1))"

definition Container_stop_call :: "Container \<Rightarrow> jsval \<Rightarrow> call" where
  "Container_stop_call self opts =
     \<lparr>path = ''/containers/'' @ toString (Container.id' self) @ ''/stop?'',
      method' = POST, options = opts, isStream = None, hijack = None,
      openStdin = None, file' = None,
      statusCodes = [(204, Accept),
                     (304, Accept),
                     (404, Reason ''no such container''),
                     (500, Reason ''server error'')]\<rparr>"

definition Container_stop :: "transport \<Rightarrow> nat \<Rightarrow> jsval \<Rightarrow> world \<Rightarrow> outcome \<times> world" where
  "Container_stop T this opts w =
     (let self = containers w ! this;
          ((err, res), w1) = dial T (Container.modem self) (Container_stop_call self opts) w
      in if truthy err then (Rejected err, w1)
         else (Resolved (RContainer this), w1))"

definition Container_restart_call :: "Container \<Rightarrow> jsval \<Rightarrow> call" where
  "Container_restart_call self opts =
     \<lparr>path = ''/containers/'' @ toString (Container.id' self) @ ''/restart?'',
      method' = POST, options = opts, isStream = None, hijack = None,
      openStdin = None, file' = None,
      statusCodes = [(204, Accept),
                     (404, Reason ''no such container''),
                     (500, Reason ''server error'')]\<rparr>"

definition Container_restart :: "transport \<Rightarrow> nat \<Rightarrow> jsval \<Rightarrow> world \<Rightarrow> outcome \<times> world" where
  "Container_restart T this opts w =
     (let self = containers w ! this;
          ((err, res), w1) = dial T (Container.modem self) (Container_restart_call self opts) w
      in if truthy err then (Rejected err, w1)
         else (Resolved (RContainer this), w1))"

definition Container_kill_call :: "Container \<Rightarrow> jsval \<Rightarrow> call" where
  "Container_kill_call self opts =
     \<lparr>path = ''/containers/'' @ toString (Container.id' self) @ ''/kill?'',
      method' = POST, options = opts, isStream = None, hijack = None,
      openStdin = None, file' = None,
      statusCodes = [(204, Accept),
                     (404, Reason ''no such container''),
                     (500, Reason ''server error'')]\<rparr>"

definition Container_kill :: "transport \<Rightarrow> nat \<Rightarrow> jsval \<Rightarrow> world \<Rightarrow> outcome \<times> world" where
  "Container_kill T this opts w =
     (let self = containers w ! this;
          ((err, res), w1) = dial T (Container.modem self) (Container_kill_call self opts) w
      in if truthy err then (Rejected err, w1)
         else (Resolved (RContainer this), w1))"

text \<open>
  \<open>update\<close>: the callback constructs the new handle and assigns its \<open>Warnings\<close> before it
  tests \<open>err\<close>.
\<close>

definition Container_update_call :: "Container \<Rightarrow> jsval \<Rightarrow> call" where
  "Container_update_call self opts =
     \<lparr>path = ''/containers/'' @ toString (Container.id' self) @ ''/update?'',
      method' = POST, options = opts, isStream = None, hijack = None,
      openStdin = None, file' = None,
      statusCodes = [(200, Accept),
                     (400, Reason ''bad request''),
                     (404, Reason ''no such container''),
                     (500, Reason ''server error'')]\<rparr>"

definition Container_update :: "transport \<Rightarrow> nat \<Rightarrow> jsval \<Rightarrow> world \<Rightarrow> outcome \<times> world" where
  "Container_update T this opts w =
     (let self = containers w ! this;
          ((err, warnings), w1) = dial T (Container.modem self) (Container_update_call self opts) w;
          (a, w2) = new_Container (Container.modem self) (Container.id' self) w1;
          w3 = set_Container_Warnings a warnings w2
      in if truthy err then (Rejected err, w3)
         else (Resolved (RContainer a), w3))"

definition Container_rename_call :: "Container \<Rightarrow> jsval \<Rightarrow> call" where
  "Container_rename_call self opts =
     \<lparr>path = ''/containers/'' @ toString (Container.id' self) @ ''/rename?'',
      method' = POST, options = opts, isStream = None, hijack = None,
      openStdin = None, file' = None,
      statusCodes = [(204, Accept),
                     (404, Reason ''no such container''),
                     (409, Reason ''name already taken''),
                     (500, Reason ''server error'')]\<rparr>"

definition Container_rename :: "transport \<Rightarrow> nat \<Rightarrow> jsval \<Rightarrow> world \<Rightarrow> outcome \<times> world" where
  "Container_rename T this opts w =
     (let self = containers w ! this;
          ((err, res), w1) = dial T (Container.modem self) (Container_rename_call self opts) w
      in if truthy err then (Rejected err, w1)
         else (Resolved (RContainer this), w1))"

definition Container_pause_call :: "Container \<Rightarrow> call" where
  "Container_pause_call self =
     \<lparr>path = ''/containers/'' @ toString (Container.id' self) @ ''/pause?'',
      method' = POST, options = JObj [], isStream = None, hijack = None,
      openStdin = None, file' = None,
      statusCodes = [(204, Accept),
                     (404, Reason ''no such container''),
                     (500, Reason ''server error'')]\<rparr>"

definition Container_pause :: "transport \<Rightarrow> nat \<Rightarrow> world \<Rightarrow> outcome \<times> world" where
  "Container_pause T this w =
     (let self = containers w ! this;
          ((err, res), w1) = dial T (Container.modem self) (Container_pause_call self) w
      in if truthy err then (Rejected err, w1)
         else (Resolved (RContainer this), w1))"

definition Container_unpause_call :: "Container \<Rightarrow> call" where
  "Container_unpause_call self =
     \<lparr>path = ''/containers/'' @ toString (Container.id' self) @ ''/unpause?'',
      method' = POST, options = JObj [], isStream = None, hijack = None,
      openStdin = None, file' = None,
      statusCodes = [(204, Accept),
                     (404, Reason ''no such container''),
                     (500, Reason ''server error'')]\<rparr>"

definition Container_unpause :: "transport \<Rightarrow> nat \<Rightarrow> world \<Rightarrow> outcome \<times> world" where
  "Container_unpause T this w =
     (let self = containers w ! this;
          ((err, res), w1) = dial T (Container.modem self) (Container_unpause_call self) w
      in if truthy err then (Rejected err, w1)
         else (Resolved (RContainer this), w1))"

definition Container_attach_call :: "Container \<Rightarrow> jsval \<Rightarrow> error + call" where
  "Container_attach_call self opts0 =
     (let opts = defaultTo opts0 (JObj []) in
      case getProp opts ''stdin'' of
        Inl e \<Rightarrow> Inl e
      | Inr s \<Rightarrow>
          Inr \<lparr>path = ''/containers/'' @ toString (Container.id' self) @ ''/attach?'',
               method' = POST, options = opts, isStream = Some True, hijack = None,
               openStdin = Some s, file' = None,
               statusCodes = [(101, Accept), (200, Accept), (400, Reason ''bad request''),
                              (404, Reason ''no such container''),
                              (500, Reason ''server error'')]\<rparr>)"

definition Container_attach :: "transport \<Rightarrow> nat \<Rightarrow> jsval \<Rightarrow> world \<Rightarrow> outcome \<times> world" where
  "Container_attach T this opts w =
     (let self = containers w ! this in
      case Container_attach_call self opts of
        Inl e \<Rightarrow> (Threw e, w)
      | Inr c \<Rightarrow>
          (let ((err, stream), w1) = dial T (Container.modem self) c w
           in if truthy err then (Rejected err, w1)
              else (Resolved (RArray [RVal stream, RContainer this]), w1)))"

definition Container_wsattach_call :: "Container \<Rightarrow> jsval \<Rightarrow> call" where
  "Container_wsattach_call self opts =
     \<lparr>path = ''/containers/'' @ toString (Container.id' self) @ ''/attach/ws?'',
      method' = GET, options = opts, isStream = None, hijack = None,
      openStdin = None, file' = None,
      statusCodes = [(200, Accept),
                     (400, Reason ''bad request''),
                     (404, Reason ''no such container''),
                     (500, Reason ''server error'')]\<rparr>"

definition Container_wsattach :: "transport \<Rightarrow> nat \<Rightarrow> jsval \<Rightarrow> world \<Rightarrow> outcome \<times> world" where
  "Container_wsattach T this opts w =
     (let self = containers w ! this;
          ((err, stream), w1) = dial T (Container.modem self) (Container_wsattach_call self opts) w
      in if truthy err then (Rejected err, w1)
         else (Resolved (RArray [RVal stream, RContainer this]), w1))"

definition Container_wait_call :: "Container \<Rightarrow> call" where
  "Container_wait_call self =
     \<lparr>path = ''/containers/'' @ toString (Container.id' self) @ ''/wait?'',
      method' = POST, options = JObj [], isStream = None, hijack = None,
      openStdin = None, file' = None,
      statusCodes = [(200, Accept),
                     (404, Reason ''no such container''),
                     (500, Reason ''server error'')]\<rparr>"

definition Container_wait :: "transport \<Rightarrow> nat \<Rightarrow> world \<Rightarrow> outcome \<times> world" where
  "Container_wait T this w =
     (let self = containers w ! this;
          ((err, code), w1) = dial T (Container.modem self) (Container_wait_call self) w
      in if truthy err then (Rejected err, w1)
         else (Resolved (RVal code), w1))"

definition Container_delete_call :: "Container \<Rightarrow> jsval \<Rightarrow> call" where
  "Container_delete_call self opts =
     \<lparr>path = ''/containers/'' @ toString (Container.id' self) @ ''?'',
      method' = DELETE, options = opts, isStream = None, hijack = None,
      openStdin = None, file' = None,
      statusCodes = [(204, Accept),
                     (400, Reason ''bad request''),
                     (404, Reason ''no such container''),
                     (500, Reason ''server error'')]\<rparr>"

definition Container_delete :: "transport \<Rightarrow> nat \<Rightarrow> jsval \<Rightarrow> world \<Rightarrow> outcome \<times> world" where
  "Container_delete T this opts w =
     (let self = containers w ! this;
          ((err, res), w1) = dial T (Container.modem self) (Container_delete_call self opts) w
      in if truthy err then (Rejected err, w1)
         else (Resolved (RVal JNull), w1))"

text \<open>
  \<open>commit\<close> first assigns \<open>opts.container = this.id\<close>: a write in place to the caller's
  record (to a fresh \<open>{}\<close>, which nobody else holds, when the argument is omitted).
  \<open>Container_commit_shared\<close> is the call with an argument that sits at the places \<open>shared\<close>
  of the store; \<open>Container_commit\<close> is the call with an argument that no handle holds. The
  second component of the value is the caller's argument as the call leaves it.
\<close>

definition Container_commit_call :: "jsval \<Rightarrow> call" where
  "Container_commit_call opts =
     \<lparr>path = ''/commit?'',
      method' = POST, options = opts, isStream = None, hijack = None, openStdin = None,
      file' = None,
      statusCodes = [(201, Accept), (404, Reason ''no such container''),
                     (500, Reason ''server error'')]\<rparr>"

definition Container_commit_callback :: "nat \<Rightarrow> jsval \<Rightarrow> jsval \<Rightarrow> world \<Rightarrow> outcome \<times> world" where
  "Container_commit_callback m err res w =
     (if truthy err then (Rejected err, w)
      else case getProp res ''Id'' of
             Inl e \<Rightarrow> (Threw e, w)
           | Inr i \<Rightarrow>
               (case i of
                  JStr s \<Rightarrow>
                    (let (a, w1) = new_Image m (JStr (replace s ''sha256:'' [])) w
                     in (Resolved (RImage a), w1))
                | _ \<Rightarrow> (Threw TypeError, w)))"

definition Container_commit_shared ::
  "transport \<Rightarrow> nat \<Rightarrow> place list \<Rightarrow> jsval \<Rightarrow> world \<Rightarrow> (outcome \<times> jsval) \<times> world" where
  "Container_commit_shared T this shared opts0 w =
     (let self = containers w ! this in
      case setProp (defaultTo opts0 (JObj [])) ''container'' (Container.id' self) of
        Inl e \<Rightarrow> ((Threw e, opts0), w)
      | Inr opts \<Rightarrow>
          (let w0 = (if opts0 = JUndefined then w else write_shared shared opts0 opts w);
               ((err, res), w1) = dial T (Container.modem self) (Container_commit_call opts) w0;
               (out, w2) = Container_commit_callback (Container.modem self) err res w1
           in ((out, if opts0 = JUndefined then JUndefined else opts), w2)))"

definition Container_commit ::
  "transport \<Rightarrow> nat \<Rightarrow> jsval \<Rightarrow> world \<Rightarrow> (outcome \<times> jsval) \<times> world" where
  "Container_commit T this opts0 w = Container_commit_shared T this [] opts0 w"

section \<open>The container manager\<close>

definition default_get :: "Default \<Rightarrow> string \<Rightarrow> world \<Rightarrow> nat \<times> world" where
  "default_get this i w = new_Container (Default.modem this) (JStr i) w"

definition default_list_call :: "jsval \<Rightarrow> call" where
  "default_list_call opts =
     \<lparr>path = ''/containers/json?'',
      method' = GET, options = opts, isStream = None, hijack = None, openStdin = None,
      file' = None,
      statusCodes = [(200, Accept), (400, Reason ''bad request''),
                     (500, Reason ''server error'')]\<rparr>"

text \<open>
  \<open>containers.map((conf) => ...)\<close>: one handle per element, in the order of the array; a
  \<open>conf\<close> that is \<open>undefined\<close> or \<open>null\<close> makes \<open>conf.Id\<close> throw, after the handles of
  the elements before it have been constructed.
\<close>

fun containers_of_confs :: "nat \<Rightarrow> jsval list \<Rightarrow> world \<Rightarrow> (error + nat list) \<times> world" where
  "containers_of_confs m [] w = (Inr [], w)"
| "containers_of_confs m (conf # confs) w =
     (case getProp conf ''Id'' of
        Inl e \<Rightarrow> (Inl e, w)
      | Inr i \<Rightarrow>
          (let (a, w1) = new_Container m i w;
               w2 = set_Container_data a conf w1;
               (r, w3) = containers_of_confs m confs w2
           in (case r of Inl e \<Rightarrow> (Inl e, w3) | Inr as \<Rightarrow> (Inr (a # as), w3))))"

definition default_list_callback :: "nat \<Rightarrow> jsval \<Rightarrow> jsval \<Rightarrow> world \<Rightarrow> outcome \<times> world" where
  "default_list_callback m err containers' w =
     (if truthy err then (Rejected err, w)
      else case containers' of
             JArr confs ps \<Rightarrow>
               (let (r, w1) = containers_of_confs m confs w
                in (case r of
                      Inl e \<Rightarrow> (Threw e, w1)
                    | Inr as \<Rightarrow> (Resolved (RArray (map RContainer as)), w1)))
           | _ \<Rightarrow> (Threw TypeError, w))"

definition default_list :: "transport \<Rightarrow> Default \<Rightarrow> jsval \<Rightarrow> world \<Rightarrow> outcome \<times> world" where
  "default_list T this opts w =
     (let ((err, containers'), w1) = dial T (Default.modem this) (default_list_call opts) w
      in default_list_callback (Default.modem this) err containers' w1)"

definition default_create_call :: "jsval \<Rightarrow> call" where
  "default_create_call opts =
     \<lparr>path = ''/containers/create?'',
      method' = POST, options = opts, isStream = None, hijack = None, openStdin = None,
      file' = None,
      statusCodes = [(200, Accept), (201, Accept), (400, Reason ''bad request''),
                     (404, Reason ''no such image''),
                     (406, Reason ''impossible to attach''),
                     (500, Reason ''server error'')]\<rparr>"

definition default_create :: "transport \<Rightarrow> Default \<Rightarrow> jsval \<Rightarrow> world \<Rightarrow> outcome \<times> world" where
  "default_create T this opts w =
     (let ((err, conf), w1) = dial T (Default.modem this) (default_create_call opts) w
      in if truthy err then (Rejected err, w1)
         else case getProp conf ''Id'' of
                Inl e \<Rightarrow> (Threw e, w1)
              | Inr i \<Rightarrow>
                  (let (a, w2) = new_Container (Default.modem this) i w1;
                       w3 = set_Container_data a conf w2
                   in (Resolved (RContainer a), w3)))"

definition default_prune_call :: "jsval \<Rightarrow> call" where
  "default_prune_call opts =
     \<lparr>path = ''/containers/prune'',
      method' = POST, options = opts, isStream = None, hijack = None, openStdin = None,
      file' = None,
      statusCodes = [(200, Accept), (500, Reason ''server error'')]\<rparr>"

definition default_prune :: "transport \<Rightarrow> Default \<Rightarrow> jsval \<Rightarrow> world \<Rightarrow> outcome \<times> world" where
  "default_prune T this opts w =
     (let ((err, res), w1) = dial T (Default.modem this) (default_prune_call opts) w
      in if truthy err then (Rejected err, w1)
         else (Resolved (RVal res), w1))"

section \<open>Every operation that dials\<close>

text \<open>
  One constructor per method that dials the transport, with the receiver and the arguments
  of the call (for \<open>commit\<close>, also the places of its argument); \<open>invoke\<close> runs it.
\<close>

datatype operation =
    OpExecCreate nat jsval
  | OpExecStart nat jsval
  | OpExecResize nat jsval
  | OpExecStatus nat jsval
  | OpExecManagerCreate ExecManager jsval
  | OpFsInfo ContainerFs jsval
  | OpFsGet ContainerFs jsval
  | OpFsPut ContainerFs jsval jsval
  | OpStatus nat jsval
  | OpTop nat jsval
  | OpLogs nat jsval
  | OpChanges nat
  | OpExport nat jsval
  | OpStats nat jsval
  | OpResize nat jsval
  | OpStart nat jsval
  | OpStop nat jsval
  | OpRestart nat jsval
  | OpKill nat jsval
  | OpUpdate nat jsval
  | OpRename nat jsval
  | OpPause nat
  | OpUnpause nat
  | OpAttach nat jsval
  | OpWsattach nat jsval
  | OpWait nat
  | OpDelete nat jsval
  | OpCommit nat "place list" jsval
  | OpList Default jsval
  | OpCreate Default jsval
  | OpPrune Default jsval

fun invoke :: "transport \<Rightarrow> operation \<Rightarrow> world \<Rightarrow> outcome \<times> world" where
  "invoke T (OpExecCreate this opts) w = Exec_create T this opts w"
| "invoke T (OpExecStart this opts) w = Exec_start T this opts w"
| "invoke T (OpExecResize this opts) w = Exec_resize T this opts w"
| "invoke T (OpExecStatus this opts) w = Exec_status T this opts w"
| "invoke T (OpExecManagerCreate this opts) w = ExecManager_create T this opts w"
| "invoke T (OpFsInfo this opts) w = ContainerFs_info T this opts w"
| "invoke T (OpFsGet this opts) w = ContainerFs_get T this opts w"
| "invoke T (OpFsPut this file opts) w = ContainerFs_put T this file opts w"
| "invoke T (OpStatus this opts) w = Container_status T this opts w"
| "invoke T (OpTop this opts) w = Container_top T this opts w"
| "invoke T (OpLogs this opts) w = Container_logs T this opts w"
| "invoke T (OpChanges this) w = Container_changes T this w"
| "invoke T (OpExport this opts) w = Container_export T this opts w"
| "invoke T (OpStats this opts) w = Container_stats T this opts w"
| "invoke T (OpResize this opts) w = Container_resize T this opts w"
| "invoke T (OpStart this opts) w = Container_start T this opts w"
| "invoke T (OpStop this opts) w = Container_stop T this opts w"
| "invoke T (OpRestart this opts) w = Container_restart T this opts w"
| "invoke T (OpKill this opts) w = Container_kill T this opts w"
| "invoke T (OpUpdate this opts) w = Container_update T this opts w"
| "invoke T (OpRename this opts) w = Container_rename T this opts w"
| "invoke T (OpPause this) w = Container_pause T this w"
| "invoke T (OpUnpause this) w = Container_unpause T this w"
| "invoke T (OpAttach this opts) w = Container_attach T this opts w"
| "invoke T (OpWsattach this opts) w = Container_wsattach T this opts w"
| "invoke T (OpWait this) w = Container_wait T this w"
| "invoke T (OpDelete this opts) w = Container_delete T this opts w"
| "invoke T (OpCommit this shared opts) w =
     (let ((out, opts'), w1) = Container_commit_shared T this shared opts w in (out, w1))"
| "invoke T (OpList this opts) w = default_list T this opts w"
| "invoke T (OpCreate this opts) w = default_create T this opts w"
| "invoke T (OpPrune this opts) w = default_prune T this opts w"

section \<open>Sample inputs\<close>

text \<open>A container handle with a snapshot, alone in the store, and transports to run it on.\<close>

definition sample_container :: Container where
  "sample_container =
     \<lparr>Container.modem = 0, Container.id' = JStr ''abc'',
      fs = \<lparr>ContainerFs.modem = 0, ContainerFs.container = 0\<rparr>,
      exec = \<lparr>ExecManager.modem = 0, ExecManager.container = 0\<rparr>,
      Warnings = JArr [] [],
      Container.data = JObj [(''Id'', JStr ''abc''), (''State'', JStr ''running'')]\<rparr>"

definition sample_world :: world where
  "sample_world = \<lparr>containers = [sample_container], execs = [], images = [], dialed = []\<rparr>"

text \<open>A transport that fails every dial.\<close>

definition failing_transport :: transport where
  "failing_transport m n c =
     (JObj [(''statusCode'', JNum 404), (''reason'', JStr ''no such container'')], JUndefined)"

text \<open>
  A transport that honours \<open>isStream\<close>: it delivers a live stream of two chunks that ends
  when the descriptor asks for a stream, and the buffered text otherwise.
\<close>

definition streaming_transport :: transport where
  "streaming_transport m n c =
     (JNull, if isStream c = Some True then JStream [''ab'', ''cd''] True [] else JStr ''abcd'')"

text \<open>A transport that answers every dial with a list of warnings.\<close>

definition warning_transport :: transport where
  "warning_transport m n c = (JNull, JArr [JStr ''kernel memory limit ignored''] [])"

text \<open>A transport that answers every dial with two decoded containers.\<close>

definition listing_transport :: transport where
  "listing_transport m n c =
     (JNull, JArr [JObj [(''Id'', JStr ''a1''), (''State'', JStr ''running'')],
                   JObj [(''Id'', JStr ''b2''), (''State'', JStr ''exited'')]] [])"

text \<open>A transport that answers every dial with the identifier of a new image.\<close>

definition image_transport :: transport where
  "image_transport m n c = (JNull, JObj [(''Id'', JStr ''sha256:0123'')])"

text \<open>A store whose one container has a snapshot with an object inside.\<close>

definition nested_world :: world where
  "nested_world =
     \<lparr>containers =
        [sample_container
           \<lparr>Container.data :=
              JObj [(''Id'', JStr ''abc''), (''Config'', JObj [(''Image'', JStr ''alpine'')])]\<rparr>],
      execs = [], images = [], dialed = []\<rparr>"

section \<open>Vocabulary of the proofs\<close>

text \<open>
  \<open>extends w w'\<close>: every handle of the store \<open>w\<close> is in \<open>w'\<close>, at the same reference and with
  the same fields; \<open>w'\<close> may hold more handles.
\<close>

definition extends :: "world \<Rightarrow> world \<Rightarrow> bool" where
  "extends w w' =
     (take (length (containers w)) (containers w') = containers w \<and>
      take (length (execs w)) (execs w') = execs w \<and>
      take (length (images w)) (images w') = images w)"

text \<open>The places an operation is told its argument sits at: none but for \<open>commit\<close>.\<close>

fun sharing :: "operation \<Rightarrow> place list" where
  "sharing (OpCommit this shared opts) = shared"
| "sharing op = []"

text \<open>
  The handles that the loop of \<open>list\<close> appends to a store of \<open>n\<close> containers, for an array
  of decoded elements: the closed form of \<open>containers_of_confs\<close>.
\<close>

fun listed :: "nat \<Rightarrow> nat \<Rightarrow> jsval list \<Rightarrow> Container list" where
  "listed m n [] = []"
| "listed m n (conf # confs) =
     \<lparr>Container.modem = m,
      Container.id' = (case getProp conf ''Id'' of Inl e \<Rightarrow> JUndefined | Inr i \<Rightarrow> i),
      fs = \<lparr>ContainerFs.modem = m, ContainerFs.container = n\<rparr>,
      exec = \<lparr>ExecManager.modem = m, ExecManager.container = n\<rparr>,
      Warnings = JArr [] [], Container.data = conf\<rparr> # listed m (Suc n) confs"

section \<open>The store under the constructors and the dial\<close>

lemma extends_refl [simp]: "extends w w"
  by (simp add: extends_def)

lemma extends_dial [simp]: "extends w (snd (dial T m c w))"
  by (simp add: extends_def dial_def)

lemma dialed_dial [simp]: "dialed (snd (dial T m c w)) = dialed w @ [(m, c)]"
  by (simp add: dial_def)

lemma fst_dial [simp]: "fst (dial T m c w) = T m (length (dialed w)) c"
  by (simp add: dial_def)

lemma stores_dial [simp]:
  "containers (snd (dial T m c w)) = containers w"
  "execs (snd (dial T m c w)) = execs w"
  "images (snd (dial T m c w)) = images w"
  by (simp_all add: dial_def)

lemma new_Image_simps [simp]:
  "fst (new_Image m i w) = length (images w)"
  "images (snd (new_Image m i w)) = images w @ [\<lparr>Image.modem = m, Image.id' = i\<rparr>]"
  "containers (snd (new_Image m i w)) = containers w"
  "execs (snd (new_Image m i w)) = execs w"
  "dialed (snd (new_Image m i w)) = dialed w"
  by (simp_all add: new_Image_def)

lemma new_Exec_simps [simp]:
  "fst (new_Exec m c i w) = length (execs w)"
  "execs (snd (new_Exec m c i w)) = execs w @
     [\<lparr>Exec.modem = m, Exec.container = c, Exec.id' = i, Exec.data = JObj []\<rparr>]"
  "containers (snd (new_Exec m c i w)) = containers w"
  "images (snd (new_Exec m c i w)) = images w"
  "dialed (snd (new_Exec m c i w)) = dialed w"
  by (simp_all add: new_Exec_def)

lemma new_Container_simps [simp]:
  "fst (new_Container m i w) = length (containers w)"
  "containers (snd (new_Container m i w)) = containers w @
     [\<lparr>Container.modem = m, Container.id' = i,
       fs = \<lparr>ContainerFs.modem = m, ContainerFs.container = length (containers w)\<rparr>,
       exec = \<lparr>ExecManager.modem = m, ExecManager.container = length (containers w)\<rparr>,
       Warnings = JArr [] [], Container.data = JUndefined\<rparr>]"
  "execs (snd (new_Container m i w)) = execs w"
  "images (snd (new_Container m i w)) = images w"
  "dialed (snd (new_Container m i w)) = dialed w"
  by (simp_all add: new_Container_def Let_def)

lemma set_simps [simp]:
  "containers (set_Container_data a v w) = (containers w)[a := (containers w ! a)\<lparr>Container.data := v\<rparr>]"
  "execs (set_Container_data a v w) = execs w"
  "images (set_Container_data a v w) = images w"
  "dialed (set_Container_data a v w) = dialed w"
  "containers (set_Container_Warnings a v w) = (containers w)[a := (containers w ! a)\<lparr>Warnings := v\<rparr>]"
  "execs (set_Container_Warnings a v w) = execs w"
  "images (set_Container_Warnings a v w) = images w"
  "dialed (set_Container_Warnings a v w) = dialed w"
  "execs (set_Exec_data a v w) = (execs w)[a := (execs w ! a)\<lparr>Exec.data := v\<rparr>]"
  "containers (set_Exec_data a v w) = containers w"
  "images (set_Exec_data a v w) = images w"
  "dialed (set_Exec_data a v w) = dialed w"
  by (simp_all add: set_Container_data_def set_Container_Warnings_def set_Exec_data_def)

section \<open>The store under a write in place\<close>

lemma nth_update_field:
  "f y = f (xs ! a) \<Longrightarrow> f (xs[a := y] ! b) = f (xs ! b)"
  by (cases "a < length xs"; cases "a = b"; simp add: list_update_beyond)

lemma map_update_field:
  "f y = f (xs ! a) \<Longrightarrow> map f (xs[a := y]) = map f xs"
  by (rule nth_equalityI) (simp_all add: nth_update_field)

lemma set_held_frame [simp]:
  "dialed (set_held h v w) = dialed w"
  "images (set_held h v w) = images w"
  "length (containers (set_held h v w)) = length (containers w)"
  "length (execs (set_held h v w)) = length (execs w)"
  "map Container.modem (containers (set_held h v w)) = map Container.modem (containers w)"
  "map Container.id' (containers (set_held h v w)) = map Container.id' (containers w)"
  "map fs (containers (set_held h v w)) = map fs (containers w)"
  "map exec (containers (set_held h v w)) = map exec (containers w)"
  "map Exec.modem (execs (set_held h v w)) = map Exec.modem (execs w)"
  "map Exec.container (execs (set_held h v w)) = map Exec.container (execs w)"
  "map Exec.id' (execs (set_held h v w)) = map Exec.id' (execs w)"
  by (cases h; simp add: set_held_def set_Container_data_def
      set_Container_Warnings_def set_Exec_data_def map_update_field)+


lemma set_held_other:
  "h \<noteq> ContainerData a \<Longrightarrow>
     Container.data (containers (set_held h v w) ! a) = Container.data (containers w ! a)"
  "h \<noteq> ContainerWarnings a \<Longrightarrow>
     Warnings (containers (set_held h v w) ! a) = Warnings (containers w ! a)"
  "h \<noteq> ExecData a \<Longrightarrow>
     Exec.data (execs (set_held h v w) ! a) = Exec.data (execs w ! a)"
proof -
  show "h \<noteq> ContainerData a \<Longrightarrow>
     Container.data (containers (set_held h v w) ! a) = Container.data (containers w ! a)"
  proof (cases h)
    case (ContainerData b)
    assume "h \<noteq> ContainerData a"
    with ContainerData have "b \<noteq> a" by simp
    then show ?thesis
      by (simp add: ContainerData set_held_def set_Container_data_def)
  next
    case (ContainerWarnings b)
    show ?thesis
      by (simp add: ContainerWarnings set_held_def set_Container_Warnings_def nth_update_field)
  next
    case (ExecData b)
    show ?thesis by (simp add: ExecData set_held_def set_Exec_data_def)
  qed
  show "h \<noteq> ContainerWarnings a \<Longrightarrow>
     Warnings (containers (set_held h v w) ! a) = Warnings (containers w ! a)"
  proof (cases h)
    case (ContainerData b)
    show ?thesis
      by (simp add: ContainerData set_held_def set_Container_data_def nth_update_field)
  next
    case (ContainerWarnings b)
    assume "h \<noteq> ContainerWarnings a"
    with ContainerWarnings have "b \<noteq> a" by simp
    then show ?thesis
      by (simp add: ContainerWarnings set_held_def set_Container_Warnings_def)
  next
    case (ExecData b)
    show ?thesis by (simp add: ExecData set_held_def set_Exec_data_def)
  qed
  show "h \<noteq> ExecData a \<Longrightarrow>
     Exec.data (execs (set_held h v w) ! a) = Exec.data (execs w ! a)"
  proof (cases h)
    case (ContainerData b)
    show ?thesis by (simp add: ContainerData set_held_def set_Container_data_def)
  next
    case (ContainerWarnings b)
    show ?thesis by (simp add: ContainerWarnings set_held_def set_Container_Warnings_def)
  next
    case (ExecData b)
    assume "h \<noteq> ExecData a"
    with ExecData have "b \<noteq> a" by simp
    then show ?thesis by (simp add: ExecData set_held_def set_Exec_data_def)
  qed
qed

lemma write_place_frame [simp]:
  "dialed (write_place pl old new w) = dialed w"
  "images (write_place pl old new w) = images w"
  "length (containers (write_place pl old new w)) = length (containers w)"
  "length (execs (write_place pl old new w)) = length (execs w)"
  "map Container.modem (containers (write_place pl old new w)) = map Container.modem (containers w)"
  "map Container.id' (containers (write_place pl old new w)) = map Container.id' (containers w)"
  "map fs (containers (write_place pl old new w)) = map fs (containers w)"
  "map exec (containers (write_place pl old new w)) = map exec (containers w)"
  "map Exec.modem (execs (write_place pl old new w)) = map Exec.modem (execs w)"
  "map Exec.container (execs (write_place pl old new w)) = map Exec.container (execs w)"
  "map Exec.id' (execs (write_place pl old new w)) = map Exec.id' (execs w)"
  by (cases "held (fst pl) w"; simp add: write_place_def)+

lemma write_place_other:
  "fst pl \<noteq> ContainerData a \<Longrightarrow>
     Container.data (containers (write_place pl old new w) ! a) = Container.data (containers w ! a)"
  "fst pl \<noteq> ContainerWarnings a \<Longrightarrow>
     Warnings (containers (write_place pl old new w) ! a) = Warnings (containers w ! a)"
  "fst pl \<noteq> ExecData a \<Longrightarrow>
     Exec.data (execs (write_place pl old new w) ! a) = Exec.data (execs w ! a)"
  by (cases "held (fst pl) w"; simp add: write_place_def set_held_other)+


lemma write_shared_frame:
  "dialed (write_shared pls old new w) = dialed w \<and>
   images (write_shared pls old new w) = images w \<and>
   length (containers (write_shared pls old new w)) = length (containers w) \<and>
   length (execs (write_shared pls old new w)) = length (execs w) \<and>
   map Container.modem (containers (write_shared pls old new w)) = map Container.modem (containers w) \<and>
   map Container.id' (containers (write_shared pls old new w)) = map Container.id' (containers w) \<and>
   map fs (containers (write_shared pls old new w)) = map fs (containers w) \<and>
   map exec (containers (write_shared pls old new w)) = map exec (containers w) \<and>
   map Exec.modem (execs (write_shared pls old new w)) = map Exec.modem (execs w) \<and>
   map Exec.container (execs (write_shared pls old new w)) = map Exec.container (execs w) \<and>
   map Exec.id' (execs (write_shared pls old new w)) = map Exec.id' (execs w)"
proof (induction pls arbitrary: w)
  case Nil
  show ?case by simp
next
  case (Cons pl pls)
  from Cons.IH [of "write_place pl old new w"] show ?case by simp
qed

lemma write_shared_other:
  "(ContainerData a \<notin> fst ` set pls \<longrightarrow>
      Container.data (containers (write_shared pls old new w) ! a)
        = Container.data (containers w ! a)) \<and>
   (ContainerWarnings a \<notin> fst ` set pls \<longrightarrow>
      Warnings (containers (write_shared pls old new w) ! a) = Warnings (containers w ! a)) \<and>
   (ExecData a \<notin> fst ` set pls \<longrightarrow>
      Exec.data (execs (write_shared pls old new w) ! a) = Exec.data (execs w ! a))"
proof (induction pls arbitrary: w)
  case Nil
  show ?case by simp
next
  case (Cons pl pls)
  from Cons.IH [of "write_place pl old new w"] write_place_other [of pl a old new w]
  show ?case by auto
qed

lemma dialed_write_shared [simp]: "dialed (write_shared pls old new w) = dialed w"
  by (simp add: write_shared_frame)

section \<open>The store under the operations\<close>

lemma exec_of_conf_frame [simp]:
  "extends w (snd (exec_of_conf m c conf w))"
  "dialed (snd (exec_of_conf m c conf w)) = dialed w"
  by (simp_all add: exec_of_conf_def extends_def case_prod_beta split: sum.splits)

lemma snd_containers_of_confs_Cons:
  "getProp conf ''Id'' = Inr i \<Longrightarrow>
   snd (containers_of_confs m (conf # confs) w) =
   snd (containers_of_confs m confs
          (set_Container_data (length (containers w)) conf (snd (new_Container m i w))))"
  by (simp add: case_prod_beta Let_def split: sum.splits)

lemma snd_containers_of_confs_throw:
  "getProp conf ''Id'' = Inl e \<Longrightarrow> snd (containers_of_confs m (conf # confs) w) = w"
  by simp

lemma containers_of_confs_frame:
  "(\<exists>cs. containers (snd (containers_of_confs m confs w)) = containers w @ cs) \<and>
   execs (snd (containers_of_confs m confs w)) = execs w \<and>
   images (snd (containers_of_confs m confs w)) = images w \<and>
   dialed (snd (containers_of_confs m confs w)) = dialed w"
proof (induction confs arbitrary: w)
  case Nil
  show ?case by simp
next
  case (Cons conf confs)
  show ?case
  proof (cases "getProp conf ''Id''")
    case (Inl e)
    then show ?thesis by (simp only: snd_containers_of_confs_throw) simp
  next
    case (Inr i)
    let ?w2 = "set_Container_data (length (containers w)) conf (snd (new_Container m i w))"
    from Cons.IH [of ?w2] show ?thesis
      by (simp only: snd_containers_of_confs_Cons [OF Inr]) auto
  qed
qed


lemmas op_defs =
  Exec_create_def Exec_start_def Exec_resize_def Exec_status_def ExecManager_create_def
  ContainerFs_info_def ContainerFs_get_def ContainerFs_put_def
  Container_status_def Container_top_def Container_logs_def Container_changes_def
  Container_export_def Container_stats_def Container_resize_def Container_start_def
  Container_stop_def Container_restart_def Container_kill_def Container_update_def
  Container_rename_def Container_pause_def Container_unpause_def Container_attach_def
  Container_wsattach_def Container_wait_def Container_delete_def
  Container_commit_shared_def
  Container_commit_callback_def default_list_def default_list_callback_def
  default_create_def default_prune_def

lemma snd_sum_case [simp]:
  "snd (case r of Inl e \<Rightarrow> (f e, x) | Inr a \<Rightarrow> (g a, x)) = x"
  by (cases r) simp_all

lemma containers_of_confs_extends [simp]:
  "extends w (snd (containers_of_confs m confs w))"
  using containers_of_confs_frame [of m confs w] by (auto simp: extends_def)

lemma default_list_callback_frame [simp]:
  "extends w (snd (default_list_callback m err cs w))"
  "dialed (snd (default_list_callback m err cs w)) = dialed w"
  by (cases cs; simp add: default_list_callback_def case_prod_beta containers_of_confs_frame)+

lemma extends_after_dial:
  "extends (snd (dial T m c w)) w' \<Longrightarrow> extends w w'"
  by (simp add: extends_def)

lemma invoke_extends:
  assumes "sharing op = []"
  shows "extends w (snd (invoke T op w))"
proof (cases op)
  case (OpList this opts)
  then show ?thesis
    by (simp add: default_list_def case_prod_beta)
       (rule extends_after_dial, rule default_list_callback_frame)
qed (use assms in \<open>auto simp: op_defs extends_def case_prod_beta Let_def exec_of_conf_def
       split: sum.splits jsval.splits\<close>)

lemma fst_default_list_callback_err:
  "truthy err \<Longrightarrow> fst (default_list_callback m err cs w) = Rejected err"
  by (simp add: default_list_callback_def)

lemma invoke_dials:
  "dialed (snd (invoke T op w)) = dialed w \<or>
   (\<exists>m c. dialed (snd (invoke T op w)) = dialed w @ [(m, c)] \<and>
      (truthy (fst (T m (length (dialed w)) c)) \<longrightarrow>
         fst (invoke T op w) = Rejected (fst (T m (length (dialed w)) c))))"
proof (cases op)
  case (OpList this opts)
  then show ?thesis
    by (simp add: default_list_def case_prod_beta fst_default_list_callback_err)
qed (auto simp: op_defs case_prod_beta Let_def Container_export_callback_def
       split: sum.splits jsval.splits)

section \<open>Lemmas about the loop of list\<close>

lemma length_listed [simp]: "length (listed m n confs) = length confs"
  by (induction confs arbitrary: n) simp_all

lemma listed_nth:
  "i < length confs \<Longrightarrow>
   listed m n confs ! i =
     \<lparr>Container.modem = m,
      Container.id' = (case getProp (confs ! i) ''Id'' of Inl e \<Rightarrow> JUndefined | Inr i \<Rightarrow> i),
      fs = \<lparr>ContainerFs.modem = m, ContainerFs.container = n + i\<rparr>,
      exec = \<lparr>ExecManager.modem = m, ExecManager.container = n + i\<rparr>,
      Warnings = JArr [] [], Container.data = confs ! i\<rparr>"
proof (induction confs arbitrary: n i)
  case Nil
  then show ?case by simp
next
  case (Cons conf confs)
  show ?case
  proof (cases i)
    case 0
    then show ?thesis by simp
  next
    case (Suc j)
    with Cons.prems have "j < length confs" by simp
    from Cons.IH [OF this, of "Suc n"] Suc show ?thesis by simp
  qed
qed

lemma getProp_defined:
  "conf \<noteq> JUndefined \<Longrightarrow> conf \<noteq> JNull \<Longrightarrow> \<exists>i. getProp conf k = Inr i"
  by (cases conf) simp_all

lemma upt_head: "[n ..< Suc (n + k)] = n # [Suc n ..< Suc (n + k)]"
  using upt_conv_Cons [of n "Suc (n + k)"] by simp

lemma containers_of_confs_listed:
  "\<forall>conf\<in>set confs. conf \<noteq> JUndefined \<and> conf \<noteq> JNull \<Longrightarrow>
   containers_of_confs m confs w =
     (Inr [length (containers w) ..< length (containers w) + length confs],
      w\<lparr>containers := containers w @ listed m (length (containers w)) confs\<rparr>)"
proof (induction confs arbitrary: w)
  case Nil
  then show ?case by simp
next
  case (Cons conf confs)
  from Cons.prems obtain i where i: "getProp conf ''Id'' = Inr i"
    using getProp_defined [of conf "''Id''"] by auto
  let ?w2 = "set_Container_data (length (containers w)) conf (snd (new_Container m i w))"
  have w2: "?w2 = w\<lparr>containers := containers w @ listed m (length (containers w)) [conf]\<rparr>"
    using i by (simp add: set_Container_data_def new_Container_def Let_def)
  from Cons.prems have rest: "\<forall>conf\<in>set confs. conf \<noteq> JUndefined \<and> conf \<noteq> JNull"
    by simp
  have "containers_of_confs m (conf # confs) w =
      (case containers_of_confs m confs ?w2 of
         (r, w3) \<Rightarrow> (case r of Inl e \<Rightarrow> (Inl e, w3)
                     | Inr as \<Rightarrow> (Inr (length (containers w) # as), w3)))"
    using i by (simp add: case_prod_beta Let_def split: sum.splits)
  also have "\<dots> = (Inr [length (containers w) ..< length (containers w) + length (conf # confs)],
      w\<lparr>containers := containers w @ listed m (length (containers w)) (conf # confs)\<rparr>)"
    unfolding Cons.IH [OF rest, of ?w2] using i
    by (simp add: w2 upt_head del: upt_Suc)
  finally show ?case .
qed


section \<open>Lemmas about export\<close>

lemma export_requested:
  "truthy s \<Longrightarrow> getProp opts ''stream'' = Inr s \<Longrightarrow> \<not> truthy err \<Longrightarrow>
   Container_export_callback opts err (JStream chunks True ps)
     = Resolved (RVal (JStr (concat chunks)))"
  by (simp add: Container_export_callback_def)

lemma export_not_requested:
  "\<not> truthy s \<Longrightarrow> getProp opts ''stream'' = Inr s \<Longrightarrow> \<not> truthy err \<Longrightarrow>
   Container_export_callback opts err tarStream = Resolved (RVal tarStream)"
  by (simp add: Container_export_callback_def)

section \<open>Lemmas about the state transitions\<close>

lemma invoke_ok_same_handle:
  assumes "op \<in> {OpStart this opts, OpStop this opts, OpRestart this opts, OpKill this opts,
                  OpRename this opts, OpPause this, OpUnpause this}"
      and "dialed (snd (invoke T op w)) = dialed w @ [(m, c)]"
      and "\<not> truthy (fst (T m (length (dialed w)) c))"
  shows "fst (invoke T op w) = Resolved (RContainer this) \<and>
         containers (snd (invoke T op w)) = containers w \<and>
         execs (snd (invoke T op w)) = execs w \<and>
         images (snd (invoke T op w)) = images w"
  using assms
  by (auto simp: Container_start_def Container_stop_def Container_restart_def
      Container_kill_def Container_rename_def Container_pause_def Container_unpause_def
      dial_def case_prod_beta Let_def)

lemma invoke_ok_update:
  assumes "dialed (snd (invoke T (OpUpdate this opts) w)) = dialed w @ [(m, c)]"
      and "\<not> truthy (fst (T m (length (dialed w)) c))"
  shows "fst (invoke T (OpUpdate this opts) w) = Resolved (RContainer (length (containers w))) \<and>
         containers (snd (invoke T (OpUpdate this opts) w)) = containers w @
           [\<lparr>Container.modem = Container.modem (containers w ! this),
             Container.id' = Container.id' (containers w ! this),
             fs = \<lparr>ContainerFs.modem = Container.modem (containers w ! this),
                   ContainerFs.container = length (containers w)\<rparr>,
             exec = \<lparr>ExecManager.modem = Container.modem (containers w ! this),
                     ExecManager.container = length (containers w)\<rparr>,
             Warnings = snd (T m (length (dialed w)) c),
             Container.data = JUndefined\<rparr>] \<and>
         execs (snd (invoke T (OpUpdate this opts) w)) = execs w \<and>
         images (snd (invoke T (OpUpdate this opts) w)) = images w"
  using assms
  by (auto simp: Container_update_def case_prod_beta Let_def)

section \<open>Lemmas about commit\<close>

lemma replace_first_occurrence:
  "pat \<noteq> [] \<Longrightarrow> \<forall>k<length u. \<not> startsWith (drop k (u @ pat @ v)) pat \<Longrightarrow>
   replace (u @ pat @ v) pat rep = u @ rep @ v"
proof (induction u)
  case Nil
  then obtain c cs where eq: "pat @ v = c # cs" by (cases pat) auto
  have sw: "startsWith (c # cs) pat"
    unfolding eq [symmetric] by (simp add: startsWith_def)
  have "replace (pat @ v) pat rep = rep @ drop (length pat) (pat @ v)"
    unfolding eq using sw by simp
  then show ?case by simp
next
  case (Cons a u)
  from Cons.prems(2) have here: "\<not> startsWith ((a # u) @ pat @ v) pat"
    by (metis drop0 length_greater_0_conv list.distinct(1))
  have later: "\<forall>k<length u. \<not> startsWith (drop k (u @ pat @ v)) pat"
  proof (intro allI impI)
    fix k assume "k < length u"
    then have "Suc k < length (a # u)" by simp
    with Cons.prems(2) have "\<not> startsWith (drop (Suc k) ((a # u) @ pat @ v)) pat" by blast
    then show "\<not> startsWith (drop k (u @ pat @ v)) pat" by simp
  qed
  from here Cons.IH [OF Cons.prems(1) later] show ?case by simp
qed

lemma replace_absent:
  "\<forall>k\<le>length s. \<not> startsWith (drop k s) pat \<Longrightarrow> replace s pat rep = s"
proof (induction s)
  case Nil
  then have "pat \<noteq> []" by (auto simp: startsWith_def)
  then show ?case by simp
next
  case (Cons a s)
  from Cons.prems have here: "\<not> startsWith (a # s) pat"
    by (metis drop0 le0)
  have later: "\<forall>k\<le>length s. \<not> startsWith (drop k s) pat"
  proof (intro allI impI)
    fix k assume "k \<le> length s"
    then have "Suc k \<le> length (a # s)" by simp
    with Cons.prems have "\<not> startsWith (drop (Suc k) (a # s)) pat" by blast
    then show "\<not> startsWith (drop k s) pat" by simp
  qed
  from here Cons.IH [OF later] show ?case by simp
qed

lemma commit_run:
  "Container_commit T this (JObj ps) w =
     (let self = containers w ! this;
          opts = JObj (AList.update ''container'' (Container.id' self) ps);
          r = T (Container.modem self) (length (dialed w)) (Container_commit_call opts);
          w1 = w\<lparr>dialed := dialed w @ [(Container.modem self, Container_commit_call opts)]\<rparr>
      in ((fst (Container_commit_callback (Container.modem self) (fst r) (snd r) w1), opts),
          snd (Container_commit_callback (Container.modem self) (fst r) (snd r) w1)))"
  by (simp add: Container_commit_def Container_commit_shared_def defaultTo_def dial_def
      case_prod_beta Let_def)

lemma dialed_commit_callback [simp]:
  "dialed (snd (Container_commit_callback m err res w)) = dialed w"
  by (simp add: Container_commit_callback_def case_prod_beta split: sum.splits jsval.splits)

lemma commit_callback_ok:
  "\<not> truthy err \<Longrightarrow> getProp res ''Id'' = Inr (JStr s) \<Longrightarrow>
   Container_commit_callback m err res w =
     (Resolved (RImage (length (images w))),
      w\<lparr>images := images w @ [\<lparr>Image.modem = m,
                                  Image.id' = JStr (replace s ''sha256:'' [])\<rparr>]\<rparr>)"
  by (simp add: Container_commit_callback_def new_Image_def)

section \<open>Lemmas about the handles of the store\<close>

lemma commit_callback_stores [simp]:
  "containers (snd (Container_commit_callback m err res w)) = containers w"
  "execs (snd (Container_commit_callback m err res w)) = execs w"
  "length (images w) = n \<Longrightarrow>
     take n (images (snd (Container_commit_callback m err res w))) = images w"
  by (auto simp: Container_commit_callback_def case_prod_beta split: sum.splits jsval.splits)

lemma commit_shared_written:
  assumes "setProp opts0 ''container'' (Container.id' (containers w ! this)) = Inr new"
  shows "containers (snd (Container_commit_shared T this shared opts0 w))
           = containers (write_shared shared opts0 new w) \<and>
         execs (snd (Container_commit_shared T this shared opts0 w))
           = execs (write_shared shared opts0 new w)"
proof -
  from assms have "opts0 \<noteq> JUndefined" by auto
  with assms show ?thesis
    by (simp add: Container_commit_shared_def defaultTo_def case_prod_beta Let_def)
qed

lemma commit_shared_stores:
  "\<exists>pls new. set pls \<subseteq> set shared \<and>
     containers (snd (Container_commit_shared T this shared opts0 w))
       = containers (write_shared pls opts0 new w) \<and>
     execs (snd (Container_commit_shared T this shared opts0 w))
       = execs (write_shared pls opts0 new w) \<and>
     take (length (images w)) (images (snd (Container_commit_shared T this shared opts0 w)))
       = images w"
proof (cases "setProp (defaultTo opts0 (JObj [])) ''container'' (Container.id' (containers w ! this))")
  case (Inl e)
  then have "snd (Container_commit_shared T this shared opts0 w) = w"
    by (simp add: Container_commit_shared_def)
  then have "set [] \<subseteq> set shared \<and>
     containers (snd (Container_commit_shared T this shared opts0 w))
       = containers (write_shared [] opts0 JUndefined w) \<and>
     execs (snd (Container_commit_shared T this shared opts0 w))
       = execs (write_shared [] opts0 JUndefined w) \<and>
     take (length (images w)) (images (snd (Container_commit_shared T this shared opts0 w)))
       = images w"
    by simp
  then show ?thesis by blast
next
  case (Inr new)
  show ?thesis
  proof (cases "opts0 = JUndefined")
    case True
    with Inr have "set [] \<subseteq> set shared \<and>
       containers (snd (Container_commit_shared T this shared opts0 w))
         = containers (write_shared [] opts0 new w) \<and>
       execs (snd (Container_commit_shared T this shared opts0 w))
         = execs (write_shared [] opts0 new w) \<and>
       take (length (images w)) (images (snd (Container_commit_shared T this shared opts0 w)))
         = images w"
      by (simp add: Container_commit_shared_def case_prod_beta Let_def)
    then show ?thesis by blast
  next
    case False
    with Inr have "set shared \<subseteq> set shared \<and>
       containers (snd (Container_commit_shared T this shared opts0 w))
         = containers (write_shared shared opts0 new w) \<and>
       execs (snd (Container_commit_shared T this shared opts0 w))
         = execs (write_shared shared opts0 new w) \<and>
       take (length (images w)) (images (snd (Container_commit_shared T this shared opts0 w)))
         = images w"
      by (simp add: Container_commit_shared_def case_prod_beta Let_def write_shared_frame)
    then show ?thesis by blast
  qed
qed

lemma sharing_Nil:
  "\<nexists>this shared opts. op = OpCommit this shared opts \<Longrightarrow> sharing op = []"
  by (cases op) simp_all

lemma invoke_stores:
  "\<exists>pls old new. set pls \<subseteq> set (sharing op) \<and>
     take (length (containers w)) (containers (snd (invoke T op w)))
       = containers (write_shared pls old new w) \<and>
     take (length (execs w)) (execs (snd (invoke T op w)))
       = execs (write_shared pls old new w) \<and>
     take (length (images w)) (images (snd (invoke T op w))) = images w"
proof (cases "\<exists>this shared opts. op = OpCommit this shared opts")
  case True
  then obtain this shared opts where op: "op = OpCommit this shared opts" by blast
  from commit_shared_stores [of shared T this opts w]
  obtain pls new where "set pls \<subseteq> set shared"
    and c: "containers (snd (Container_commit_shared T this shared opts w))
       = containers (write_shared pls opts new w)"
    and e: "execs (snd (Container_commit_shared T this shared opts w))
       = execs (write_shared pls opts new w)"
    and i: "take (length (images w)) (images (snd (Container_commit_shared T this shared opts w)))
       = images w"
    by blast
  then have "set pls \<subseteq> set (sharing op) \<and>
     take (length (containers w)) (containers (snd (invoke T op w)))
       = containers (write_shared pls opts new w) \<and>
     take (length (execs w)) (execs (snd (invoke T op w)))
       = execs (write_shared pls opts new w) \<and>
     take (length (images w)) (images (snd (invoke T op w))) = images w"
    using write_shared_frame [of pls opts new w]
    by (simp add: op case_prod_beta)
  then show ?thesis by blast
next
  case False
  then have none: "sharing op = []" by (rule sharing_Nil)
  from invoke_extends [OF none, of w T]
  have "set [] \<subseteq> set (sharing op) \<and>
     take (length (containers w)) (containers (snd (invoke T op w)))
       = containers (write_shared [] JUndefined JUndefined w) \<and>
     take (length (execs w)) (execs (snd (invoke T op w)))
       = execs (write_shared [] JUndefined JUndefined w) \<and>
     take (length (images w)) (images (snd (invoke T op w))) = images w"
    by (simp add: extends_def)
  then show ?thesis by blast
qed

section \<open>Descriptors\<close>

text \<open>
  C7. \<open>Container.start\<close> and \<open>Container.stop\<close> accept exactly the status codes 204 and 304,
  \<open>Container.restart\<close> and \<open>Container.kill\<close> accept exactly 204; all four map 404 and 500,
  and no other code, to an error reason, and all four use the method POST on the path
  \<open>/containers/{id}/{verb}\<close>, which the descriptor carries with the \<open>?\<close> that opens the
  query string.
\<close>

theorem start_stop_restart_kill_descriptors:
  "(method' (Container_start_call self opts) = POST \<and>
    path (Container_start_call self opts) =
      ''/containers/'' @ toString (Container.id' self) @ ''/start?'' \<and>
    {k. map_of (statusCodes (Container_start_call self opts)) k = Some Accept} = {204, 304} \<and>
    {k. \<exists>r. map_of (statusCodes (Container_start_call self opts)) k = Some (Reason r)}
      = {404, 500}) \<and>
   (method' (Container_stop_call self opts) = POST \<and>
    path (Container_stop_call self opts) =
      ''/containers/'' @ toString (Container.id' self) @ ''/stop?'' \<and>
    {k. map_of (statusCodes (Container_stop_call self opts)) k = Some Accept} = {204, 304} \<and>
    {k. \<exists>r. map_of (statusCodes (Container_stop_call self opts)) k = Some (Reason r)}
      = {404, 500}) \<and>
   (method' (Container_restart_call self opts) = POST \<and>
    path (Container_restart_call self opts) =
      ''/containers/'' @ toString (Container.id' self) @ ''/restart?'' \<and>
    {k. map_of (statusCodes (Container_restart_call self opts)) k = Some Accept} = {204} \<and>
    {k. \<exists>r. map_of (statusCodes (Container_restart_call self opts)) k = Some (Reason r)}
      = {404, 500}) \<and>
   (method' (Container_kill_call self opts) = POST \<and>
    path (Container_kill_call self opts) =
      ''/containers/'' @ toString (Container.id' self) @ ''/kill?'' \<and>
    {k. map_of (statusCodes (Container_kill_call self opts)) k = Some Accept} = {204} \<and>
    {k. \<exists>r. map_of (statusCodes (Container_kill_call self opts)) k = Some (Reason r)}
      = {404, 500})"
proof -
  have start: "statusCodes (Container_start_call self opts) =
      [(204, Accept), (304, Accept), (404, Reason ''no such container''),
       (500, Reason ''server error'')]"
    by (simp add: Container_start_call_def)
  have stop: "statusCodes (Container_stop_call self opts) =
      [(204, Accept), (304, Accept), (404, Reason ''no such container''),
       (500, Reason ''server error'')]"
    by (simp add: Container_stop_call_def)
  have restart: "statusCodes (Container_restart_call self opts) =
      [(204, Accept), (404, Reason ''no such container''), (500, Reason ''server error'')]"
    by (simp add: Container_restart_call_def)
  have kill: "statusCodes (Container_kill_call self opts) =
      [(204, Accept), (404, Reason ''no such container''), (500, Reason ''server error'')]"
    by (simp add: Container_kill_call_def)
  have two: "{k. map_of [(204::int, Accept), (304, Accept), (404, Reason ''no such container''),
       (500, Reason ''server error'')] k = Some Accept} = {204, 304}"
    by (auto split: if_splits)
  have one: "{k. map_of [(204::int, Accept), (404, Reason ''no such container''),
       (500, Reason ''server error'')] k = Some Accept} = {204}"
    by (auto split: if_splits)
  have errs2: "{k. \<exists>r. map_of [(204::int, Accept), (304, Accept),
       (404, Reason ''no such container''), (500, Reason ''server error'')] k = Some (Reason r)}
       = {404, 500}"
    by (auto split: if_splits)
  have errs1: "{k. \<exists>r. map_of [(204::int, Accept),
       (404, Reason ''no such container''), (500, Reason ''server error'')] k = Some (Reason r)}
       = {404, 500}"
    by (auto split: if_splits)
  show ?thesis
    unfolding start stop restart kill two one errs1 errs2
    by (simp add: Container_start_call_def Container_stop_call_def
        Container_restart_call_def Container_kill_call_def)
qed

text \<open>
  C2, as the claim states it, fails: the descriptor of \<open>ContainerFs.get\<close> has no entry for
  the status code 403.
\<close>

theorem archive_get_omits_403:
  "map_of (statusCodes (projr (ContainerFs_get_call sample_container JUndefined))) 403 = None"
  by (simp add: ContainerFs_get_call_def defaultTo_def)

text \<open>
  C2, amended. Each of the three archive operations builds a descriptor whose path begins
  with \<open>/containers/{id}/archive?\<close> (\<open>get\<close> appends \<open>path={opts.path}&\<close>), whose table accepts
  exactly 200 and maps 404 and 500 to an error reason. \<open>put\<close> maps exactly 400, 403, 404 and
  500 to an error reason; \<open>get\<close> maps exactly 400, 404 and 500 and has no entry for 403;
  \<open>info\<close> has no entry for 403. \<open>get\<close> builds no descriptor only when its argument is
  \<open>null\<close>.
\<close>

theorem archive_descriptors:
  "(method' (ContainerFs_info_call owner opts) = HEAD \<and>
    path (ContainerFs_info_call owner opts) =
      ''/containers/'' @ toString (Container.id' owner) @ ''/archive?'' \<and>
    {k. map_of (statusCodes (ContainerFs_info_call owner opts)) k = Some Accept} = {200} \<and>
    (\<exists>r. map_of (statusCodes (ContainerFs_info_call owner opts)) 404 = Some (Reason r)) \<and>
    (\<exists>r. map_of (statusCodes (ContainerFs_info_call owner opts)) 500 = Some (Reason r)) \<and>
    map_of (statusCodes (ContainerFs_info_call owner opts)) 403 = None) \<and>
   (case ContainerFs_get_call owner opts of
      Inl e \<Rightarrow> opts = JNull
    | Inr c \<Rightarrow>
        method' c = GET \<and>
        path c = ''/containers/'' @ toString (Container.id' owner) @ ''/archive?'' @
                 ''path='' @ toString (projr (getProp (defaultTo opts (JObj [])) ''path'')) @ ''&'' \<and>
        {k. map_of (statusCodes c) k = Some Accept} = {200} \<and>
        {k. \<exists>r. map_of (statusCodes c) k = Some (Reason r)} = {400, 404, 500} \<and>
        map_of (statusCodes c) 403 = None) \<and>
   (method' (ContainerFs_put_call owner file opts) = PUT \<and>
    path (ContainerFs_put_call owner file opts) =
      ''/containers/'' @ toString (Container.id' owner) @ ''/archive?'' \<and>
    {k. map_of (statusCodes (ContainerFs_put_call owner file opts)) k = Some Accept} = {200} \<and>
    {k. \<exists>r. map_of (statusCodes (ContainerFs_put_call owner file opts)) k = Some (Reason r)}
      = {400, 403, 404, 500})"
proof -
  have info: "statusCodes (ContainerFs_info_call owner opts) =
      [(200, Accept), (404, Reason ''bad request''), (500, Reason ''server error'')]"
    by (simp add: ContainerFs_info_call_def)
  have put: "statusCodes (ContainerFs_put_call owner file opts) =
      [(200, Accept), (400, Reason ''bad request''), (403, Reason ''permission denied''),
       (404, Reason ''no such container''), (500, Reason ''server error'')]"
    by (simp add: ContainerFs_put_call_def)
  have a1: "{k. map_of [(200::int, Accept), (404, Reason ''bad request''),
       (500, Reason ''server error'')] k = Some Accept} = {200}"
    by (auto split: if_splits)
  have a2: "{k. map_of [(200::int, Accept), (400, Reason ''bad request''),
       (403, Reason ''permission denied''), (404, Reason ''no such container''),
       (500, Reason ''server error'')] k = Some Accept} = {200}"
    by (auto split: if_splits)
  have e2: "{k. \<exists>r. map_of [(200::int, Accept), (400, Reason ''bad request''),
       (403, Reason ''permission denied''), (404, Reason ''no such container''),
       (500, Reason ''server error'')] k = Some (Reason r)} = {400, 403, 404, 500}"
    by (auto split: if_splits)
  have "opts = JNull" if "getProp (defaultTo opts (JObj [])) ''path'' = Inl e" for e
    using that by (cases opts) (simp_all add: defaultTo_def)
  then have get: "case ContainerFs_get_call owner opts of
      Inl e \<Rightarrow> opts = JNull
    | Inr c \<Rightarrow>
        method' c = GET \<and>
        path c = ''/containers/'' @ toString (Container.id' owner) @ ''/archive?'' @
                 ''path='' @ toString (projr (getProp (defaultTo opts (JObj [])) ''path'')) @ ''&'' \<and>
        {k. map_of (statusCodes c) k = Some Accept} = {200} \<and>
        {k. \<exists>r. map_of (statusCodes c) k = Some (Reason r)} = {400, 404, 500} \<and>
        map_of (statusCodes c) 403 = None"
    by (auto simp: ContainerFs_get_call_def Let_def split: sum.splits if_splits)
  show ?thesis
    unfolding info put a1 a2 e2 using get
    by (simp add: ContainerFs_info_call_def ContainerFs_put_call_def)
qed

text \<open>
  C10. \<open>ContainerFs.get\<close> puts the string conversion of \<open>opts.path\<close> into the path as it
  is, between \<open>/containers/{id}/archive?path=\<close> and \<open>&\<close>, and passes the same record as
  the options of the descriptor: a string \<open>p\<close> is inserted as \<open>p\<close>, with nothing encoded. A
  record with no \<open>path\<close>, and a call with no argument (for which the options are the default
  \<open>{}\<close>), give the text \<open>path=undefined\<close>.
\<close>

theorem archive_get_path_interpolation:
  "ContainerFs_get_call owner (JObj ps) =
     Inr \<lparr>path = ''/containers/'' @ toString (Container.id' owner) @
                  ''/archive?path='' @ toString (lookup ps ''path'') @ ''&'',
          method' = GET, options = JObj ps, isStream = Some True, hijack = None,
          openStdin = None, file' = None,
          statusCodes = [(200, Accept), (400, Reason ''bad request''),
                         (404, Reason ''no such container''),
                         (500, Reason ''server error'')]\<rparr> \<and>
   (map_of ps ''path'' = Some (JStr p) \<longrightarrow> toString (lookup ps ''path'') = p) \<and>
   (map_of ps ''path'' = None \<longrightarrow> toString (lookup ps ''path'') = ''undefined'') \<and>
   ContainerFs_get_call owner JUndefined =
     Inr \<lparr>path = ''/containers/'' @ toString (Container.id' owner) @
                  ''/archive?path=undefined&'',
          method' = GET, options = JObj [], isStream = Some True, hijack = None,
          openStdin = None, file' = None,
          statusCodes = [(200, Accept), (400, Reason ''bad request''),
                         (404, Reason ''no such container''),
                         (500, Reason ''server error'')]\<rparr>"
  by (simp add: ContainerFs_get_call_def defaultTo_def lookup_def)

text \<open>
  The theorem of C10 at a path with a space and an ampersand, at a record without \<open>path\<close>,
  and at a call with no argument.
\<close>

theorem archive_get_path_interpolation_witness:
  "map_of [(''path'', JStr ''/etc/my file&x=1'')] ''path'' = Some (JStr ''/etc/my file&x=1'') \<and>
   path (projr (ContainerFs_get_call sample_container (JObj [(''path'', JStr ''/etc/my file&x=1'')])))
     = ''/containers/abc/archive?path=/etc/my file&x=1&'' \<and>
   map_of [(''noCopy'', JBool True)] ''path'' = None \<and>
   path (projr (ContainerFs_get_call sample_container (JObj [(''noCopy'', JBool True)])))
     = ''/containers/abc/archive?path=undefined&'' \<and>
   path (projr (ContainerFs_get_call sample_container JUndefined))
     = ''/containers/abc/archive?path=undefined&''"
  using archive_get_path_interpolation [of sample_container "[(''path'', JStr ''/etc/my file&x=1'')]" "''/etc/my file&x=1''"]
        archive_get_path_interpolation [of sample_container "[(''noCopy'', JBool True)]" "[]"]
  by (simp add: sample_container_def)

section \<open>Handles\<close>

text \<open>
  C6. \<open>get(id)\<close> of the container manager and of \<open>ExecManager\<close> constructs a handle
  and dials nothing: the dial log is unchanged. The handle is a new one, its identifier is
  \<open>id\<close>, and its snapshot is unset (\<open>undefined\<close>) for a container and empty (\<open>{}\<close>) for
  an exec; the handles that existed are as they were.
\<close>

theorem get_by_id_is_local:
  "fst (default_get mgr i w) = length (containers w) \<and>
   Container.id' (containers (snd (default_get mgr i w)) ! fst (default_get mgr i w)) = JStr i \<and>
   Container.data (containers (snd (default_get mgr i w)) ! fst (default_get mgr i w))
     = JUndefined \<and>
   Container.modem (containers (snd (default_get mgr i w)) ! fst (default_get mgr i w))
     = Default.modem mgr \<and>
   dialed (snd (default_get mgr i w)) = dialed w \<and>
   take (length (containers w)) (containers (snd (default_get mgr i w))) = containers w \<and>
   fst (ExecManager_get em i w) = length (execs w) \<and>
   Exec.id' (execs (snd (ExecManager_get em i w)) ! fst (ExecManager_get em i w)) = JStr i \<and>
   Exec.data (execs (snd (ExecManager_get em i w)) ! fst (ExecManager_get em i w)) = JObj [] \<and>
   Exec.container (execs (snd (ExecManager_get em i w)) ! fst (ExecManager_get em i w))
     = ExecManager.container em \<and>
   dialed (snd (ExecManager_get em i w)) = dialed w \<and>
   take (length (execs w)) (execs (snd (ExecManager_get em i w))) = execs w"
  by (simp add: default_get_def ExecManager_get_def new_Container_def new_Exec_def Let_def)

section \<open>What export resolves with\<close>

text \<open>
  C1, run where it fails. \<open>export({stream: true})\<close> on a transport that honours
  \<open>isStream\<close>: the descriptor asks for a stream, the transport delivers a live stream of
  the chunks \<open>ab\<close> and \<open>cd\<close>, and the promise is resolved with the string \<open>abcd\<close>, not with
  the stream. Without \<open>stream\<close> the descriptor asks for no stream and the promise is
  resolved with what the transport has buffered.
\<close>

theorem export_with_stream_requested_buffers:
  "isStream (projr (Container_export_call sample_container (JObj [(''stream'', JBool True)])))
     = Some True \<and>
   streaming_transport 0 0
       (projr (Container_export_call sample_container (JObj [(''stream'', JBool True)])))
     = (JNull, JStream [''ab'', ''cd''] True []) \<and>
   fst (Container_export streaming_transport 0 (JObj [(''stream'', JBool True)]) sample_world)
     = Resolved (RVal (JStr ''abcd'')) \<and>
   isStream (projr (Container_export_call sample_container (JObj []))) = Some False \<and>
   fst (Container_export streaming_transport 0 (JObj []) sample_world)
     = Resolved (RVal (JStr ''abcd''))"
  by (simp add: Container_export_def Container_export_call_def Container_export_callback_def
      streaming_transport_def sample_world_def sample_container_def dial_def defaultTo_def
      lookup_def)

section \<open>list\<close>

text \<open>
  C3. When the transport answers the dial of \<open>list\<close> without an error and with an array
  whose elements are neither \<open>undefined\<close> nor \<open>null\<close>, \<open>list\<close> resolves with as many
  handles as the array has elements, all new, in the order of the array: the \<open>i\<close>-th handle
  has the \<open>Id\<close> of the \<open>i\<close>-th element as its identifier and the \<open>i\<close>-th element as its
  snapshot.
\<close>

theorem list_preserves_daemon_order:
  assumes answer: "T (Default.modem this) (length (dialed w)) (default_list_call opts)
                     = (err, JArr confs ps)"
      and ok: "\<not> truthy err"
      and objs: "\<forall>conf\<in>set confs. conf \<noteq> JUndefined \<and> conf \<noteq> JNull"
  shows "fst (default_list T this opts w) =
           Resolved (RArray (map RContainer
             [length (containers w) ..< length (containers w) + length confs])) \<and>
         length (containers (snd (default_list T this opts w)))
           = length (containers w) + length confs \<and>
         (\<forall>i<length confs.
            getProp (confs ! i) ''Id'' =
              Inr (Container.id' (containers (snd (default_list T this opts w)) !
                                    (length (containers w) + i))) \<and>
            Container.data (containers (snd (default_list T this opts w)) !
                              (length (containers w) + i)) = confs ! i)"
proof -
  let ?m = "Default.modem this"
  let ?w1 = "snd (dial T ?m (default_list_call opts) w)"
  have run: "default_list T this opts w =
      (Resolved (RArray (map RContainer
         [length (containers w) ..< length (containers w) + length confs])),
       ?w1\<lparr>containers := containers w @ listed ?m (length (containers w)) confs\<rparr>)"
    using answer ok
    by (simp add: default_list_def default_list_callback_def dial_def
        containers_of_confs_listed [OF objs])
  have each: "getProp (confs ! i) ''Id'' =
        Inr (Container.id' (listed ?m (length (containers w)) confs ! i)) \<and>
      Container.data (listed ?m (length (containers w)) confs ! i) = confs ! i"
    if i: "i < length confs" for i
  proof -
    from i objs have "confs ! i \<noteq> JUndefined" "confs ! i \<noteq> JNull"
      by (auto simp: all_set_conv_all_nth)
    then obtain x where "getProp (confs ! i) ''Id'' = Inr x"
      using getProp_defined by blast
    then show ?thesis by (simp add: listed_nth [OF i])
  qed
  show ?thesis
    unfolding run using each by (simp add: nth_append)
qed

text \<open>The theorem of C3 on a transport that answers with two decoded containers.\<close>

theorem list_preserves_daemon_order_witness:
  "fst (default_list listing_transport \<lparr>Default.modem = 0\<rparr> JUndefined sample_world)
     = Resolved (RArray [RContainer 1, RContainer 2]) \<and>
   Container.id' (containers (snd (default_list listing_transport \<lparr>Default.modem = 0\<rparr>
       JUndefined sample_world)) ! 1) = JStr ''a1'' \<and>
   Container.id' (containers (snd (default_list listing_transport \<lparr>Default.modem = 0\<rparr>
       JUndefined sample_world)) ! 2) = JStr ''b2'' \<and>
   Container.data (containers (snd (default_list listing_transport \<lparr>Default.modem = 0\<rparr>
       JUndefined sample_world)) ! 2) = JObj [(''Id'', JStr ''b2''), (''State'', JStr ''exited'')]"
proof -
  let ?confs = "[JObj [(''Id'', JStr ''a1''), (''State'', JStr ''running'')],
                 JObj [(''Id'', JStr ''b2''), (''State'', JStr ''exited'')]]"
  have answer: "listing_transport (Default.modem \<lparr>Default.modem = 0\<rparr>)
      (length (dialed sample_world)) (default_list_call JUndefined) = (JNull, JArr ?confs [])"
    by (simp add: listing_transport_def)
  have ok: "\<not> truthy JNull" by simp
  have objs: "\<forall>conf\<in>set ?confs. conf \<noteq> JUndefined \<and> conf \<noteq> JNull" by simp
  note r = list_preserves_daemon_order [where T = listing_transport
      and this = "\<lparr>Default.modem = 0\<rparr>" and w = sample_world and opts = JUndefined,
      OF answer ok objs]
  from r have res: "fst (default_list listing_transport \<lparr>Default.modem = 0\<rparr> JUndefined
      sample_world) = Resolved (RArray [RContainer 1, RContainer 2])"
    by (simp add: sample_world_def upt_rec)
  from r have all: "\<forall>i<length ?confs.
      getProp (?confs ! i) ''Id'' =
        Inr (Container.id' (containers (snd (default_list listing_transport
              \<lparr>Default.modem = 0\<rparr> JUndefined sample_world)) !
              (length (containers sample_world) + i))) \<and>
      Container.data (containers (snd (default_list listing_transport
              \<lparr>Default.modem = 0\<rparr> JUndefined sample_world)) !
              (length (containers sample_world) + i)) = ?confs ! i"
    by blast
  from all [rule_format, of 0] all [rule_format, of 1] res
  show ?thesis by (simp add: sample_world_def lookup_def numeral_2_eq_2)
qed

section \<open>Errors of the transport\<close>

text \<open>
  C4. Whatever the operation: if it dials, and the transport reports an error for that
  dial, then the promise is rejected with exactly that error, and that dial is the only one
  of the call.
\<close>

theorem transport_error_rejects_once:
  assumes run: "invoke T op w = (out, w')"
      and dialed: "dialed w' = dialed w @ (m, c) # rest"
      and err: "truthy (fst (T m (length (dialed w)) c))"
  shows "out = Rejected (fst (T m (length (dialed w)) c)) \<and> rest = []"
proof -
  from run have out: "out = fst (invoke T op w)" and w': "w' = snd (invoke T op w)"
    by simp_all
  from invoke_dials [of T op w] dialed w'
  obtain m' c' where one: "dialed w' = dialed w @ [(m', c')]"
    and rej: "truthy (fst (T m' (length (dialed w)) c')) \<longrightarrow>
              fst (invoke T op w) = Rejected (fst (T m' (length (dialed w)) c'))"
    by auto
  from one dialed have same: "m' = m" "c' = c" and rest: "rest = []"
    by simp_all
  from rej err same out rest show ?thesis by simp
qed

text \<open>The theorem of C4 at \<open>start\<close> on a transport that fails every dial.\<close>

theorem transport_error_rejects_once_witness:
  "dialed (snd (invoke failing_transport (OpStart 0 JUndefined) sample_world))
     = dialed sample_world @ [(0, Container_start_call sample_container JUndefined)] \<and>
   truthy (fst (failing_transport 0 (length (dialed sample_world))
                  (Container_start_call sample_container JUndefined))) \<and>
   fst (invoke failing_transport (OpStart 0 JUndefined) sample_world)
     = Rejected (JObj [(''statusCode'', JNum 404), (''reason'', JStr ''no such container'')])"
proof -
  have run: "invoke failing_transport (OpStart 0 JUndefined) sample_world
      = (fst (invoke failing_transport (OpStart 0 JUndefined) sample_world),
         snd (invoke failing_transport (OpStart 0 JUndefined) sample_world))"
    by simp
  have dialed: "dialed (snd (invoke failing_transport (OpStart 0 JUndefined) sample_world))
      = dialed sample_world @ (0, Container_start_call sample_container JUndefined) # []"
    by (simp add: Container_start_def sample_world_def dial_def failing_transport_def
        sample_container_def Let_def)
  have err: "truthy (fst (failing_transport 0 (length (dialed sample_world))
                  (Container_start_call sample_container JUndefined)))"
    by (simp add: failing_transport_def)
  from transport_error_rejects_once [OF run dialed err] dialed err
  show ?thesis by (simp add: failing_transport_def)
qed

section \<open>State transitions\<close>

text \<open>
  C5, as the claim states it, fails at \<open>update\<close>: the handle it resolves with is a new one
  with the same identifier, and its snapshot is unset, whereas the handle \<open>update\<close> was
  called on has one.
\<close>

theorem update_drops_snapshot:
  "fst (Container_update warning_transport 0 JUndefined sample_world) = Resolved (RContainer 1) \<and>
   Container.id' (containers (snd (Container_update warning_transport 0 JUndefined sample_world)) ! 1)
     = Container.id' (containers sample_world ! 0) \<and>
   Container.data (containers sample_world ! 0)
     = JObj [(''Id'', JStr ''abc''), (''State'', JStr ''running'')] \<and>
   Container.data (containers (snd (Container_update warning_transport 0 JUndefined sample_world)) ! 1)
     = JUndefined \<and>
   Container.data (containers (snd (Container_update warning_transport 0 JUndefined sample_world)) ! 1)
     \<noteq> Container.data (containers sample_world ! 0)"
  by (simp add: Container_update_def sample_world_def sample_container_def
      warning_transport_def dial_def new_Container_def set_Container_Warnings_def Let_def)

text \<open>
  C5, amended. When the transport reports no error, \<open>start\<close>, \<open>stop\<close>, \<open>restart\<close>, \<open>kill\<close>,
  \<open>rename\<close>, \<open>pause\<close> and \<open>unpause\<close> resolve with the handle they were called on, and no
  handle of the store is changed or added. \<open>update\<close> resolves with a new handle that has
  the modem and the identifier of the handle it was called on, the value the transport
  delivered as its \<open>Warnings\<close>, and no snapshot: the snapshot is not carried over.
\<close>

theorem state_transitions_resolve:
  assumes run: "invoke T op w = (out, w')"
      and dialed: "dialed w' = dialed w @ [(m, c)]"
      and ok: "\<not> truthy (fst (T m (length (dialed w)) c))"
  shows "(op \<in> {OpStart this opts, OpStop this opts, OpRestart this opts, OpKill this opts,
                 OpRename this opts, OpPause this, OpUnpause this} \<longrightarrow>
            out = Resolved (RContainer this) \<and> containers w' = containers w \<and>
            execs w' = execs w \<and> images w' = images w) \<and>
         (op = OpUpdate this opts \<longrightarrow>
            out = Resolved (RContainer (length (containers w))) \<and>
            containers w' = containers w @
              [\<lparr>Container.modem = Container.modem (containers w ! this),
                Container.id' = Container.id' (containers w ! this),
                fs = \<lparr>ContainerFs.modem = Container.modem (containers w ! this),
                      ContainerFs.container = length (containers w)\<rparr>,
                exec = \<lparr>ExecManager.modem = Container.modem (containers w ! this),
                        ExecManager.container = length (containers w)\<rparr>,
                Warnings = snd (T m (length (dialed w)) c),
                Container.data = JUndefined\<rparr>] \<and>
            execs w' = execs w \<and> images w' = images w)"
proof -
  from run have out: "out = fst (invoke T op w)" and w': "w' = snd (invoke T op w)"
    by simp_all
  show ?thesis
  proof (intro conjI impI)
    assume "op \<in> {OpStart this opts, OpStop this opts, OpRestart this opts, OpKill this opts,
                   OpRename this opts, OpPause this, OpUnpause this}"
    from invoke_ok_same_handle [OF this dialed [unfolded w'] ok]
    show "out = Resolved (RContainer this)" "containers w' = containers w"
         "execs w' = execs w" "images w' = images w"
      by (simp_all add: out w')
  next
    assume upd: "op = OpUpdate this opts"
    from invoke_ok_update [OF dialed [unfolded w' upd] ok]
    show "out = Resolved (RContainer (length (containers w)))"
         "containers w' = containers w @
              [\<lparr>Container.modem = Container.modem (containers w ! this),
                Container.id' = Container.id' (containers w ! this),
                fs = \<lparr>ContainerFs.modem = Container.modem (containers w ! this),
                      ContainerFs.container = length (containers w)\<rparr>,
                exec = \<lparr>ExecManager.modem = Container.modem (containers w ! this),
                        ExecManager.container = length (containers w)\<rparr>,
                Warnings = snd (T m (length (dialed w)) c),
                Container.data = JUndefined\<rparr>]"
         "execs w' = execs w" "images w' = images w"
      by (simp_all add: out w' upd)
  qed
qed

text \<open>The theorem of C5 at \<open>start\<close> and at \<open>update\<close>, on a transport that delivers warnings.\<close>

theorem state_transitions_resolve_witness:
  "fst (invoke warning_transport (OpStart 0 (JObj [])) sample_world) = Resolved (RContainer 0) \<and>
   containers (snd (invoke warning_transport (OpStart 0 (JObj [])) sample_world))
     = containers sample_world \<and>
   fst (invoke warning_transport (OpUpdate 0 (JObj [])) sample_world) = Resolved (RContainer 1) \<and>
   Warnings (containers (snd (invoke warning_transport (OpUpdate 0 (JObj [])) sample_world)) ! 1)
     = JArr [JStr ''kernel memory limit ignored''] [] \<and>
   Container.data (containers (snd (invoke warning_transport (OpUpdate 0 (JObj [])) sample_world)) ! 1)
     = JUndefined"
proof -
  let ?start = "invoke warning_transport (OpStart 0 (JObj [])) sample_world"
  let ?update = "invoke warning_transport (OpUpdate 0 (JObj [])) sample_world"
  have run1: "?start = (fst ?start, snd ?start)" by simp
  have run2: "?update = (fst ?update, snd ?update)" by simp
  have d1: "dialed (snd ?start) =
      dialed sample_world @ [(0, Container_start_call sample_container (JObj []))]"
    by (simp add: Container_start_def sample_world_def dial_def warning_transport_def
        sample_container_def Let_def)
  have d2: "dialed (snd ?update) =
      dialed sample_world @ [(0, Container_update_call sample_container (JObj []))]"
    by (simp add: Container_update_def sample_world_def dial_def warning_transport_def
        sample_container_def Let_def new_Container_def set_Container_Warnings_def)
  have ok1: "\<not> truthy (fst (warning_transport 0 (length (dialed sample_world))
      (Container_start_call sample_container (JObj []))))"
    by (simp add: warning_transport_def)
  have ok2: "\<not> truthy (fst (warning_transport 0 (length (dialed sample_world))
      (Container_update_call sample_container (JObj []))))"
    by (simp add: warning_transport_def)
  from state_transitions_resolve [OF run1 d1 ok1, of 0 "JObj []"]
       state_transitions_resolve [OF run2 d2 ok2, of 0 "JObj []"]
  show ?thesis
    by (simp add: sample_world_def warning_transport_def)
qed

section \<open>commit\<close>

text \<open>
  C8. \<open>commit\<close> called with a record writes the identifier of the handle to the
  \<open>container\<close> property of that record, over any value it had, and dials with the record
  so written as the options. When the transport reports no error and delivers an \<open>Id\<close> that
  is a string, the promise resolves with a new \<open>Image\<close> whose identifier is that string
  without its first occurrence of \<open>sha256:\<close> (the string itself when it has none).
\<close>

theorem commit_writes_container_and_strips_prefix:
  assumes opts': "opts' = JObj (AList.update ''container'' (Container.id' (containers w ! this)) ps)"
      and answer: "T (Container.modem (containers w ! this)) (length (dialed w))
                     (Container_commit_call opts') = (err, res)"
  shows "snd (fst (Container_commit T this (JObj ps) w)) = opts' \<and>
         getProp opts' ''container'' = Inr (Container.id' (containers w ! this)) \<and>
         dialed (snd (Container_commit T this (JObj ps) w)) =
           dialed w @ [(Container.modem (containers w ! this), Container_commit_call opts')] \<and>
         options (Container_commit_call opts') = opts' \<and>
         (\<not> truthy err \<and> getProp res ''Id'' = Inr (JStr (u @ ''sha256:'' @ v)) \<and>
          (\<forall>k<length u. \<not> startsWith (drop k (u @ ''sha256:'' @ v)) ''sha256:'') \<longrightarrow>
            fst (fst (Container_commit T this (JObj ps) w)) = Resolved (RImage (length (images w))) \<and>
            images (snd (Container_commit T this (JObj ps) w)) = images w @
              [\<lparr>Image.modem = Container.modem (containers w ! this),
                Image.id' = JStr (u @ v)\<rparr>]) \<and>
         (\<not> truthy err \<and> getProp res ''Id'' = Inr (JStr s) \<and>
          (\<forall>k\<le>length s. \<not> startsWith (drop k s) ''sha256:'') \<longrightarrow>
            fst (fst (Container_commit T this (JObj ps) w)) = Resolved (RImage (length (images w))) \<and>
            images (snd (Container_commit T this (JObj ps) w)) = images w @
              [\<lparr>Image.modem = Container.modem (containers w ! this), Image.id' = JStr s\<rparr>])"
proof -
  let ?self = "containers w ! this"
  let ?w1 = "w\<lparr>dialed := dialed w @ [(Container.modem ?self, Container_commit_call opts')]\<rparr>"
  have run: "Container_commit T this (JObj ps) w =
      ((fst (Container_commit_callback (Container.modem ?self) err res ?w1), opts'),
       snd (Container_commit_callback (Container.modem ?self) err res ?w1))"
    unfolding commit_run Let_def opts' [symmetric] answer by simp
  have written: "getProp opts' ''container'' = Inr (Container.id' ?self)"
    by (simp add: opts' lookup_def update_conv')
  have first: "Container_commit_callback (Container.modem ?self) err res ?w1 =
      (Resolved (RImage (length (images w))),
       ?w1\<lparr>images := images w @ [\<lparr>Image.modem = Container.modem ?self,
                                       Image.id' = JStr (u @ v)\<rparr>]\<rparr>)"
    if "\<not> truthy err" "getProp res ''Id'' = Inr (JStr (u @ ''sha256:'' @ v))"
       "\<forall>k<length u. \<not> startsWith (drop k (u @ ''sha256:'' @ v)) ''sha256:''"
  proof -
    have "replace (u @ ''sha256:'' @ v) ''sha256:'' [] = u @ v"
      using replace_first_occurrence [of "''sha256:''" u v "[]"] that(3) by simp
    with commit_callback_ok [OF that(1) that(2)] show ?thesis by simp
  qed
  have none: "Container_commit_callback (Container.modem ?self) err res ?w1 =
      (Resolved (RImage (length (images w))),
       ?w1\<lparr>images := images w @ [\<lparr>Image.modem = Container.modem ?self,
                                       Image.id' = JStr s\<rparr>]\<rparr>)"
    if "\<not> truthy err" "getProp res ''Id'' = Inr (JStr s)"
       "\<forall>k\<le>length s. \<not> startsWith (drop k s) ''sha256:''"
    using commit_callback_ok [OF that(1) that(2)] replace_absent [OF that(3)] by simp
  show ?thesis
  proof (intro conjI impI)
    show "snd (fst (Container_commit T this (JObj ps) w)) = opts'"
      by (simp add: run)
    show "getProp opts' ''container'' = Inr (Container.id' ?self)"
      by (rule written)
    show "dialed (snd (Container_commit T this (JObj ps) w)) =
        dialed w @ [(Container.modem ?self, Container_commit_call opts')]"
      by (simp add: run)
    show "options (Container_commit_call opts') = opts'"
      by (simp add: Container_commit_call_def)
  next
    assume a: "\<not> truthy err \<and> getProp res ''Id'' = Inr (JStr (u @ ''sha256:'' @ v)) \<and>
      (\<forall>k<length u. \<not> startsWith (drop k (u @ ''sha256:'' @ v)) ''sha256:'')"
    then have cb: "Container_commit_callback (Container.modem ?self) err res ?w1 =
      (Resolved (RImage (length (images w))),
       ?w1\<lparr>images := images w @ [\<lparr>Image.modem = Container.modem ?self,
                                       Image.id' = JStr (u @ v)\<rparr>]\<rparr>)"
      using first by blast
    show "fst (fst (Container_commit T this (JObj ps) w)) = Resolved (RImage (length (images w)))"
      by (simp add: run cb)
    show "images (snd (Container_commit T this (JObj ps) w)) = images w @
        [\<lparr>Image.modem = Container.modem ?self, Image.id' = JStr (u @ v)\<rparr>]"
      by (simp add: run cb)
  next
    assume a: "\<not> truthy err \<and> getProp res ''Id'' = Inr (JStr s) \<and>
      (\<forall>k\<le>length s. \<not> startsWith (drop k s) ''sha256:'')"
    then have cb: "Container_commit_callback (Container.modem ?self) err res ?w1 =
      (Resolved (RImage (length (images w))),
       ?w1\<lparr>images := images w @ [\<lparr>Image.modem = Container.modem ?self,
                                       Image.id' = JStr s\<rparr>]\<rparr>)"
      using none by blast
    show "fst (fst (Container_commit T this (JObj ps) w)) = Resolved (RImage (length (images w)))"
      by (simp add: run cb)
    show "images (snd (Container_commit T this (JObj ps) w)) = images w @
        [\<lparr>Image.modem = Container.modem ?self, Image.id' = JStr s\<rparr>]"
      by (simp add: run cb)
  qed
qed

text \<open>
  The theorem of C8 at a record that already has a \<open>container\<close>, on a transport that
  delivers the identifier \<open>sha256:0123\<close>.
\<close>

theorem commit_writes_container_and_strips_prefix_witness:
  "snd (fst (Container_commit image_transport 0 (JObj [(''repo'', JStr ''r''), (''container'', JStr ''other'')])
               sample_world))
     = JObj [(''repo'', JStr ''r''), (''container'', JStr ''abc'')] \<and>
   fst (fst (Container_commit image_transport 0 (JObj [(''repo'', JStr ''r''), (''container'', JStr ''other'')])
               sample_world))
     = Resolved (RImage 0) \<and>
   images (snd (Container_commit image_transport 0
                  (JObj [(''repo'', JStr ''r''), (''container'', JStr ''other'')]) sample_world))
     = [\<lparr>Image.modem = 0, Image.id' = JStr ''0123''\<rparr>]"
proof -
  let ?ps = "[(''repo'', JStr ''r''), (''container'', JStr ''other'')]"
  let ?opts' = "JObj [(''repo'', JStr ''r''), (''container'', JStr ''abc'')]"
  have opts': "?opts' = JObj (AList.update ''container''
      (Container.id' (containers sample_world ! 0)) ?ps)"
    by (simp add: sample_world_def sample_container_def)
  have answer: "image_transport (Container.modem (containers sample_world ! 0))
      (length (dialed sample_world)) (Container_commit_call ?opts')
      = (JNull, JObj [(''Id'', JStr ''sha256:0123'')])"
    by (simp add: image_transport_def)
  have first: "\<not> truthy JNull \<and>
      getProp (JObj [(''Id'', JStr ''sha256:0123'')]) ''Id'' = Inr (JStr ([] @ ''sha256:'' @ ''0123'')) \<and>
      (\<forall>k<length ([] :: string). \<not> startsWith (drop k ([] @ ''sha256:'' @ ''0123'')) ''sha256:'')"
    by (simp add: lookup_def)
  from commit_writes_container_and_strips_prefix [where T = image_transport and this = 0
      and w = sample_world and ps = ?ps and u = "[]" and v = "''0123''", OF opts' answer] first
  show ?thesis
    by (simp add: sample_world_def sample_container_def)
qed

section \<open>The handles of the store\<close>

text \<open>
  C9, as the claim states it, fails at \<open>commit\<close>: called with the snapshot of the handle as
  its argument, \<open>c.commit(c.data)\<close>, it writes the property \<open>container\<close> into that object,
  and the snapshot of the handle, which existed before the call, is not what it was.
\<close>

theorem commit_writes_into_shared_snapshot:
  "Container.data (containers sample_world ! 0)
     = JObj [(''Id'', JStr ''abc''), (''State'', JStr ''running'')] \<and>
   Container.data (containers (snd (invoke image_transport
       (OpCommit 0 [(ContainerData 0, [])] (Container.data (containers sample_world ! 0)))
       sample_world)) ! 0)
     = JObj [(''Id'', JStr ''abc''), (''State'', JStr ''running''), (''container'', JStr ''abc'')] \<and>
   Container.data (containers (snd (invoke image_transport
       (OpCommit 0 [(ContainerData 0, [])] (Container.data (containers sample_world ! 0)))
       sample_world)) ! 0)
     \<noteq> Container.data (containers sample_world ! 0)"
  by (simp add: Container_commit_shared_def Container_commit_callback_def
      Container_commit_call_def sample_world_def sample_container_def image_transport_def
      dial_def defaultTo_def write_place_def held_def set_held_def set_Container_data_def
      new_Image_def lookup_def case_prod_beta Let_def)

text \<open>
  C9, amended. No operation assigns to a field of a handle that exists when it is called:
  what an operation attaches (\<open>data\<close>, \<open>Warnings\<close>) it attaches to a handle it has
  constructed, so the modem and the identifier of every existing handle are the same after
  every call, and no image is changed. The one write that can reach an existing handle is
  that of \<open>commit\<close> into its argument: where that object is, or is inside, the \<open>data\<close> or the
  \<open>Warnings\<close> of a handle, that value has the object with \<open>container\<close> written and is
  otherwise the same. A value that does not hold the argument is unchanged; under every
  other operation, under \<open>commit\<close> with an argument that no handle holds, and under either
  \<open>get\<close>, every existing handle has all the fields it had.
\<close>

theorem handles_change_only_where_commit_writes:
  assumes run: "invoke T op w = (out, w')"
  shows "(sharing op = [] \<longrightarrow>
            take (length (containers w)) (containers w') = containers w \<and>
            take (length (execs w)) (execs w') = execs w) \<and>
         take (length (images w)) (images w') = images w \<and>
         map Container.modem (take (length (containers w)) (containers w'))
           = map Container.modem (containers w) \<and>
         map Container.id' (take (length (containers w)) (containers w'))
           = map Container.id' (containers w) \<and>
         map Exec.modem (take (length (execs w)) (execs w')) = map Exec.modem (execs w) \<and>
         map Exec.container (take (length (execs w)) (execs w'))
           = map Exec.container (execs w) \<and>
         map Exec.id' (take (length (execs w)) (execs w')) = map Exec.id' (execs w) \<and>
         (\<forall>a<length (containers w).
            (ContainerData a \<notin> fst ` set (sharing op) \<longrightarrow>
               Container.data (containers w' ! a) = Container.data (containers w ! a)) \<and>
            (ContainerWarnings a \<notin> fst ` set (sharing op) \<longrightarrow>
               Warnings (containers w' ! a) = Warnings (containers w ! a))) \<and>
         (\<forall>a<length (execs w).
            ExecData a \<notin> fst ` set (sharing op) \<longrightarrow>
              Exec.data (execs w' ! a) = Exec.data (execs w ! a)) \<and>
         (op = OpCommit this shared opts \<and>
          setProp opts ''container'' (Container.id' (containers w ! this)) = Inr new \<longrightarrow>
            containers w' = containers (write_shared shared opts new w) \<and>
            execs w' = execs (write_shared shared opts new w)) \<and>
         take (length (containers w)) (containers (snd (default_get mgr i w))) = containers w \<and>
         execs (snd (default_get mgr i w)) = execs w \<and>
         images (snd (default_get mgr i w)) = images w \<and>
         take (length (execs w)) (execs (snd (ExecManager_get em i w))) = execs w \<and>
         containers (snd (ExecManager_get em i w)) = containers w \<and>
         images (snd (ExecManager_get em i w)) = images w"
proof -
  from run have w': "w' = snd (invoke T op w)" by simp
  from invoke_stores [of op w T]
  obtain pls old new' where sub: "set pls \<subseteq> set (sharing op)"
    and c: "take (length (containers w)) (containers w')
              = containers (write_shared pls old new' w)"
    and e: "take (length (execs w)) (execs w') = execs (write_shared pls old new' w)"
    and i: "take (length (images w)) (images w') = images w"
    unfolding w' by blast
  note frame = write_shared_frame [of pls old new' w]
  have unshared: "take (length (containers w)) (containers w') = containers w \<and>
      take (length (execs w)) (execs w') = execs w" if "sharing op = []"
    using that sub c e by simp
  have cdata: "Container.data (containers w' ! a) = Container.data (containers w ! a)"
    if "a < length (containers w)" "ContainerData a \<notin> fst ` set (sharing op)" for a
  proof -
    from that(2) sub have "ContainerData a \<notin> fst ` set pls" by auto
    with write_shared_other [of a pls old new' w]
    have "Container.data (containers (write_shared pls old new' w) ! a)
        = Container.data (containers w ! a)" by simp
    moreover from that(1) have "take (length (containers w)) (containers w') ! a
        = containers w' ! a" by simp
    ultimately show ?thesis using c by simp
  qed
  have cwarn: "Warnings (containers w' ! a) = Warnings (containers w ! a)"
    if "a < length (containers w)" "ContainerWarnings a \<notin> fst ` set (sharing op)" for a
  proof -
    from that(2) sub have "ContainerWarnings a \<notin> fst ` set pls" by auto
    with write_shared_other [of a pls old new' w]
    have "Warnings (containers (write_shared pls old new' w) ! a)
        = Warnings (containers w ! a)" by simp
    moreover from that(1) have "take (length (containers w)) (containers w') ! a
        = containers w' ! a" by simp
    ultimately show ?thesis using c by simp
  qed
  have edata: "Exec.data (execs w' ! a) = Exec.data (execs w ! a)"
    if "a < length (execs w)" "ExecData a \<notin> fst ` set (sharing op)" for a
  proof -
    from that(2) sub have "ExecData a \<notin> fst ` set pls" by auto
    with write_shared_other [of a pls old new' w]
    have "Exec.data (execs (write_shared pls old new' w) ! a) = Exec.data (execs w ! a)"
      by simp
    moreover from that(1) have "take (length (execs w)) (execs w') ! a = execs w' ! a"
      by simp
    ultimately show ?thesis using e by simp
  qed
  have written: "containers w' = containers (write_shared shared opts new w) \<and>
      execs w' = execs (write_shared shared opts new w)"
    if "op = OpCommit this shared opts"
       "setProp opts ''container'' (Container.id' (containers w ! this)) = Inr new"
    using commit_shared_written [OF that(2), of T shared] that(1)
    by (simp add: w' case_prod_beta)
  have gets: "take (length (containers w)) (containers (snd (default_get mgr i w))) = containers w \<and>
      execs (snd (default_get mgr i w)) = execs w \<and>
      images (snd (default_get mgr i w)) = images w \<and>
      take (length (execs w)) (execs (snd (ExecManager_get em i w))) = execs w \<and>
      containers (snd (ExecManager_get em i w)) = containers w \<and>
      images (snd (ExecManager_get em i w)) = images w"
    by (simp add: default_get_def ExecManager_get_def)
  have fields: "map Container.modem (take (length (containers w)) (containers w'))
           = map Container.modem (containers w) \<and>
         map Container.id' (take (length (containers w)) (containers w'))
           = map Container.id' (containers w) \<and>
         map Exec.modem (take (length (execs w)) (execs w')) = map Exec.modem (execs w) \<and>
         map Exec.container (take (length (execs w)) (execs w'))
           = map Exec.container (execs w) \<and>
         map Exec.id' (take (length (execs w)) (execs w')) = map Exec.id' (execs w)"
    unfolding c e using frame by simp
  from unshared i fields cdata cwarn edata written gets show ?thesis by blast
qed

text \<open>
  The theorem of C9 at \<open>status\<close>, which leaves the one handle of the store as it was, and
  at \<open>commit\<close> called with the object \<open>Config\<close> inside the snapshot of the handle: the
  snapshot has \<open>container\<close> written in \<open>Config\<close>, the \<open>Warnings\<close> and the identifier are
  unchanged.
\<close>

theorem handles_change_only_where_commit_writes_witness:
  "take (length (containers sample_world))
      (containers (snd (invoke warning_transport (OpStatus 0 JUndefined) sample_world)))
     = containers sample_world \<and>
   Container.data (containers (snd (invoke image_transport
       (OpCommit 0 [(ContainerData 0, [Prop ''Config''])] (JObj [(''Image'', JStr ''alpine'')]))
       nested_world)) ! 0)
     = JObj [(''Id'', JStr ''abc''),
             (''Config'', JObj [(''Image'', JStr ''alpine''), (''container'', JStr ''abc'')])] \<and>
   Warnings (containers (snd (invoke image_transport
       (OpCommit 0 [(ContainerData 0, [Prop ''Config''])] (JObj [(''Image'', JStr ''alpine'')]))
       nested_world)) ! 0)
     = Warnings (containers nested_world ! 0) \<and>
   map Container.id' (take (length (containers nested_world))
       (containers (snd (invoke image_transport
         (OpCommit 0 [(ContainerData 0, [Prop ''Config''])] (JObj [(''Image'', JStr ''alpine'')]))
         nested_world))))
     = [JStr ''abc'']"
proof -
  let ?status = "invoke warning_transport (OpStatus 0 JUndefined) sample_world"
  let ?shared = "[(ContainerData 0, [Prop ''Config''])]"
  let ?opts = "JObj [(''Image'', JStr ''alpine'')]"
  let ?new = "JObj [(''Image'', JStr ''alpine''), (''container'', JStr ''abc'')]"
  let ?commit = "invoke image_transport (OpCommit 0 ?shared ?opts) nested_world"
  have run1: "?status = (fst ?status, snd ?status)" by simp
  have run2: "?commit = (fst ?commit, snd ?commit)" by simp
  have none: "sharing (OpStatus 0 JUndefined) = []" by simp
  have written: "OpCommit 0 ?shared ?opts = OpCommit 0 ?shared ?opts \<and>
      setProp ?opts ''container'' (Container.id' (containers nested_world ! 0)) = Inr ?new"
    by (simp add: nested_world_def sample_container_def)
  have other: "0 < length (containers nested_world) \<and>
      ContainerWarnings 0 \<notin> fst ` set (sharing (OpCommit 0 ?shared ?opts))"
    by (simp add: nested_world_def)
  have store: "containers (write_shared ?shared ?opts ?new nested_world) ! 0 =
      sample_container\<lparr>Container.data :=
        JObj [(''Id'', JStr ''abc''), (''Config'', ?new)]\<rparr>"
    by (simp add: write_place_def held_def set_held_def set_Container_data_def
        nested_world_def properties_def)
  note t1 = handles_change_only_where_commit_writes [OF run1]
  note t2 = handles_change_only_where_commit_writes [OF run2,
      where this = 0 and shared = ?shared and opts = ?opts and new = ?new]
  from t1 none have a: "take (length (containers sample_world)) (containers (snd ?status))
      = containers sample_world" by blast
  from t2 written have b: "containers (snd ?commit)
      = containers (write_shared ?shared ?opts ?new nested_world)" by blast
  from t2 other have c: "Warnings (containers (snd ?commit) ! 0)
      = Warnings (containers nested_world ! 0)" by blast
  from t2 have d: "map Container.id' (take (length (containers nested_world))
      (containers (snd ?commit))) = map Container.id' (containers nested_world)" by blast
  from a b c d store show ?thesis
    by (simp add: nested_world_def sample_container_def)
qed

end
